theory Spec2Isabelle
  imports Complex_Main
begin

section \<open>Python strings\<close>

text \<open>
  A Python \<open>str\<close> is modelled as a \<open>string\<close> whose elements are code points; the model
  covers the code points below 256. \<open>py_isspace\<close> is \<open>str.isspace\<close> on that range,
  \<open>py_strip\<close> is \<open>str.strip()\<close>, \<open>py_split\<close> is \<open>str.split()\<close> (runs of whitespace
  separate the tokens, no empty token), \<open>split_on\<close> is \<open>str.split(sep)\<close> for a single
  character separator, \<open>py_lower\<close> is \<open>str.lower()\<close>.
\<close>

definition py_isspace :: "char \<Rightarrow> bool" where
  "py_isspace c = ((of_char c :: nat) \<in> set [9, 10, 11, 12, 13, 28, 29, 30, 31, 32, 133, 160])"

definition py_strip :: "string \<Rightarrow> string" where
  "py_strip s = rev (dropWhile py_isspace (rev (dropWhile py_isspace s)))"

fun split_acc :: "string \<Rightarrow> string \<Rightarrow> string list" where
  "split_acc w [] = (if w = [] then [] else [w])"
| "split_acc w (c # cs) =
     (if py_isspace c then (if w = [] then split_acc [] cs else w # split_acc [] cs)
      else split_acc (w @ [c]) cs)"

definition py_split :: "string \<Rightarrow> string list" where
  "py_split s = split_acc [] s"

fun split_on :: "char \<Rightarrow> string \<Rightarrow> string list" where
  "split_on d [] = [[]]"
| "split_on d (c # cs) =
     (if c = d then [] # split_on d cs
      else (case split_on d cs of [] \<Rightarrow> [[c]] | l # ls \<Rightarrow> (c # l) # ls))"

definition lower_char :: "char \<Rightarrow> char" where
  "lower_char c =
     (let n = (of_char c :: nat)
      in if (65 \<le> n \<and> n \<le> 90) \<or> (192 \<le> n \<and> n \<le> 222 \<and> n \<noteq> 215)
         then char_of (n + 32) else c)"

definition py_lower :: "string \<Rightarrow> string" where
  "py_lower s = map lower_char s"

definition startswith :: "string \<Rightarrow> string \<Rightarrow> bool" where
  "startswith s p = (take (length p) s = p)"

definition endswith :: "string \<Rightarrow> string \<Rightarrow> bool" where
  "endswith s p = (length p \<le> length s \<and> drop (length s - length p) s = p)"

fun in_str :: "string \<Rightarrow> string \<Rightarrow> bool" where
  "in_str sub [] = (sub = [])"
| "in_str sub (c # cs) = (startswith (c # cs) sub \<or> in_str sub cs)"

section \<open>Relationship generation\<close>

text \<open>
  A relationship is the dictionary built in \<open>extract_relationships_from_extraction\<close>
  (utcp_kb_processor.py) and \<open>extract_relationships_basic\<close> (basic_utcp_processor.py).
  The type is the string the code stores; the strength is the float literal of the source.
  Every \<open>datetime.now().isoformat()\<close> is the clock reading \<open>now\<close> handed in by the caller.
\<close>

record relationship =
  rel_source :: string
  rel_target :: string
  rel_type :: string
  rel_strength :: real
  rel_source_repo :: string
  rel_source_file :: string
  rel_context :: string
  rel_timestamp :: string

text \<open>
  The facts extracted from one file (\<open>extracted_info\<close> of utcp_kb_extractor.py): title,
  summary and key terms are always there; functions and classes only for code, sections
  only for documentation, so the processor reads them with \<open>.get(key, [])\<close>.
\<close>

record extracted_info =
  info_title :: string
  info_summary :: string
  info_key_terms :: "string list"
  info_functions :: "string list option"
  info_classes :: "string list option"
  info_sections :: "string list option"

definition get_list :: "string list option \<Rightarrow> string list" where
  "get_list v = (case v of None \<Rightarrow> [] | Some xs \<Rightarrow> xs)"

text \<open>
  \<open>for i, x in enumerate(xs): for y in xs[i+1:]: if x != y: append (mk x y)\<close>.
\<close>

fun later_pairs :: "(string \<Rightarrow> string \<Rightarrow> 'a) \<Rightarrow> string list \<Rightarrow> 'a list" where
  "later_pairs mk [] = []"
| "later_pairs mk (x # xs) = map (mk x) (filter (\<lambda>y. x \<noteq> y) xs) @ later_pairs mk xs"

text \<open>\<open>for c in cs: for f in fs: append (mk c f)\<close>, with no test on the pair.\<close>

definition cross_pairs :: "(string \<Rightarrow> string \<Rightarrow> 'a) \<Rightarrow> string list \<Rightarrow> string list \<Rightarrow> 'a list" where
  "cross_pairs mk cs fs = concat (map (\<lambda>c. map (mk c) fs) cs)"

definition same_file_rel :: "string \<Rightarrow> string \<Rightarrow> string \<Rightarrow> string \<Rightarrow> string \<Rightarrow> relationship" where
  "same_file_rel now repo_name file_path func1 func2 =
     \<lparr>rel_source = func1, rel_target = func2, rel_type = ''same_file'', rel_strength = 1.0,
      rel_source_repo = repo_name, rel_source_file = file_path,
      rel_context = ''Both functions appear in '' @ file_path, rel_timestamp = now\<rparr>"

definition class_contains_rel :: "string \<Rightarrow> string \<Rightarrow> string \<Rightarrow> string \<Rightarrow> string \<Rightarrow> relationship" where
  "class_contains_rel now repo_name file_path cls func =
     \<lparr>rel_source = cls, rel_target = func, rel_type = ''contains'', rel_strength = 0.8,
      rel_source_repo = repo_name, rel_source_file = file_path,
      rel_context = ''Class '' @ cls @ '' may contain or use function '' @ func,
      rel_timestamp = now\<rparr>"

definition co_occurrence_rel :: "string \<Rightarrow> string \<Rightarrow> string \<Rightarrow> string \<Rightarrow> string \<Rightarrow> relationship" where
  "co_occurrence_rel now repo_name file_path term1 term2 =
     \<lparr>rel_source = term1, rel_target = term2, rel_type = ''co_occurrence'', rel_strength = 0.5,
      rel_source_repo = repo_name, rel_source_file = file_path,
      rel_context = ''Terms '' @ [CHR 0x27] @ term1 @ [CHR 0x27] @ '' and '' @ [CHR 0x27] @ term2
                    @ [CHR 0x27] @ '' appear in the same document'',
      rel_timestamp = now\<rparr>"

definition extract_relationships_from_extraction ::
  "string \<Rightarrow> string \<Rightarrow> string \<Rightarrow> string \<Rightarrow> string \<Rightarrow> extracted_info \<Rightarrow> relationship list" where
  "extract_relationships_from_extraction now repo_name file_path content_type content info =
     (if content_type = ''code''
      then later_pairs (same_file_rel now repo_name file_path) (get_list (info_functions info))
           @ cross_pairs (class_contains_rel now repo_name file_path)
               (get_list (info_classes info)) (get_list (info_functions info))
      else [])
     @ later_pairs (co_occurrence_rel now repo_name file_path) (info_key_terms info)"

definition co_occurrence_basic :: "string \<Rightarrow> string \<Rightarrow> string \<Rightarrow> string \<Rightarrow> string \<Rightarrow> relationship" where
  "co_occurrence_basic now repo_name file_path term1 term2 =
     \<lparr>rel_source = term1, rel_target = term2, rel_type = ''co_occurrence'', rel_strength = 0.5,
      rel_source_repo = repo_name, rel_source_file = file_path,
      rel_context = ''Terms '' @ [CHR 0x27] @ term1 @ [CHR 0x27] @ '' and '' @ [CHR 0x27] @ term2
                    @ [CHR 0x27] @ '' appear in the same file: '' @ file_path,
      rel_timestamp = now\<rparr>"

definition repo_contains_rel :: "string \<Rightarrow> string \<Rightarrow> string \<Rightarrow> string \<Rightarrow> relationship" where
  "repo_contains_rel now repo_name file_path term =
     \<lparr>rel_source = repo_name, rel_target = term, rel_type = ''contains'', rel_strength = 0.8,
      rel_source_repo = repo_name, rel_source_file = file_path,
      rel_context = ''Repository '' @ repo_name @ '' contains term '' @ [CHR 0x27] @ term
                    @ [CHR 0x27],
      rel_timestamp = now\<rparr>"

definition extract_relationships_basic :: "string \<Rightarrow> string \<Rightarrow> string \<Rightarrow> string list \<Rightarrow> relationship list" where
  "extract_relationships_basic now repo_name file_path key_terms =
     later_pairs (co_occurrence_basic now repo_name file_path) key_terms
     @ map (repo_contains_rel now repo_name file_path) key_terms"

section \<open>Title extraction\<close>

text \<open>
  \<open>extract_title\<close> (utcp_kb_extractor.py) and \<open>extract_title_basic\<close>
  (basic_utcp_extractor.py) share the loop over the leading lines, modelled by
  \<open>title_scan\<close>: the test is on the stripped line, \<open>line.strip()[2:].strip()\<close> is
  returned for a heading and \<open>line.strip()[6:].strip()\<close> without its leading and trailing quote characters (single or
  double) for a title field.
  The two functions differ in the number of lines they look at and in what they return
  when the loop finds nothing.
\<close>

definition strip_chars :: "string \<Rightarrow> string \<Rightarrow> string" where
  "strip_chars cs s = rev (dropWhile (\<lambda>c. c \<in> set cs) (rev (dropWhile (\<lambda>c. c \<in> set cs) s)))"

fun title_scan :: "string list \<Rightarrow> string option" where
  "title_scan [] = None"
| "title_scan (line # rest) =
     (if startswith (py_strip line) ''# '' then Some (py_strip (drop 2 (py_strip line)))
      else if startswith (py_strip line) ''title:''
      then Some (strip_chars [CHR 0x22, CHR 0x27] (py_strip (drop 6 (py_strip line))))
      else title_scan rest)"

definition extract_title :: "string \<Rightarrow> string" where
  "extract_title content =
     (case title_scan (take 10 (split_on (CHR 0x0A) content)) of
        Some t \<Rightarrow> t
      | None \<Rightarrow> ''No Title Found'')"

text \<open>
  The description of the loop to compare it with: a title line is a line whose stripped
  form starts with the heading or the title prefix, and \<open>title_text\<close> is what is kept
  of such a line.
\<close>

definition is_title_line :: "string \<Rightarrow> bool" where
  "is_title_line line =
     (startswith (py_strip line) ''# '' \<or> startswith (py_strip line) ''title:'')"

definition title_text :: "string \<Rightarrow> string" where
  "title_text line =
     (if startswith (py_strip line) ''# '' then py_strip (drop 2 (py_strip line))
      else strip_chars [CHR 0x22, CHR 0x27] (py_strip (drop 6 (py_strip line))))"

text \<open>
  \<open>py_title\<close> is \<open>str.title()\<close>: a cased character that follows a cased character is
  lowered, any other cased character is put in title case, and every other character is
  copied and ends the word. On the code points below 256 the cased characters are the
  ASCII letters, 170, 181, 186, 192 to 214, 216 to 246 and 248 to 255; the title case of
  a small letter is the capital 32 below it, that of 223 is the two letters \<open>Ss\<close>, and
  170 and 186 have none. The title case of 181 and of 255 lies above 255: \<open>title_char\<close>
  leaves these two as they are, and the property of the file name fallback is stated for
  file names without them. \<open>replace_char\<close> is \<open>str.replace\<close> for single characters.
\<close>

definition is_cased :: "char \<Rightarrow> bool" where
  "is_cased c =
     (let n = (of_char c :: nat)
      in (65 \<le> n \<and> n \<le> 90) \<or> (97 \<le> n \<and> n \<le> 122) \<or> n = 170 \<or> n = 181 \<or> n = 186
         \<or> (192 \<le> n \<and> n \<le> 214) \<or> (216 \<le> n \<and> n \<le> 246) \<or> (248 \<le> n \<and> n \<le> 255))"

definition title_char :: "char \<Rightarrow> string" where
  "title_char c =
     (let n = (of_char c :: nat)
      in if (97 \<le> n \<and> n \<le> 122) \<or> (224 \<le> n \<and> n \<le> 246) \<or> (248 \<le> n \<and> n \<le> 254)
         then [char_of (n - 32)]
         else if n = 223 then ''Ss''
         else [c])"

fun title_acc :: "bool \<Rightarrow> string \<Rightarrow> string" where
  "title_acc prev [] = []"
| "title_acc prev (c # cs) =
     (if is_cased c
      then (if prev then [lower_char c] else title_char c) @ title_acc True cs
      else c # title_acc False cs)"

definition py_title :: "string \<Rightarrow> string" where
  "py_title s = title_acc False s"

definition replace_char :: "char \<Rightarrow> char \<Rightarrow> string \<Rightarrow> string" where
  "replace_char a b s = map (\<lambda>c. if c = a then b else c) s"

definition extract_title_basic :: "string \<Rightarrow> string \<Rightarrow> string" where
  "extract_title_basic content filename =
     (case title_scan (take 5 (split_on (CHR 0x0A) content)) of
        Some t \<Rightarrow> t
      | None \<Rightarrow> py_title (replace_char CHR ''-'' CHR '' '' (replace_char CHR ''_'' CHR '' '' filename)))"

section \<open>Key terms\<close>

text \<open>
  \<open>list(set(xs))\<close> lists the distinct elements of \<open>xs\<close> in the iteration order of the
  set, which depends on the hashes: \<open>list_of_set h xs\<close> orders them by a key \<open>h\<close>, and
  every property below holds for every \<open>h\<close>. The regular-expression engine is outside
  the model: \<open>extract_key_terms\<close> takes the list \<open>re.findall(pattern, content,
  re.IGNORECASE)\<close> returns, \<open>extract_key_terms_basic\<close> the four lists of its four
  patterns in the order of the loop.
\<close>

definition list_of_set :: "(string \<Rightarrow> nat) \<Rightarrow> string list \<Rightarrow> string list" where
  "list_of_set h xs = sort_key h (remdups xs)"

definition extract_key_terms :: "(string \<Rightarrow> nat) \<Rightarrow> string list \<Rightarrow> string list" where
  "extract_key_terms h matches = take 20 (list_of_set h matches)"

definition extract_key_terms_basic :: "(string \<Rightarrow> nat) \<Rightarrow> string list list \<Rightarrow> string list" where
  "extract_key_terms_basic h pattern_matches = take 20 (list_of_set h (concat pattern_matches))"

section \<open>Content extraction and the builder stages\<close>

text \<open>
  \<open>extract_content\<close> (utcp_kb_extractor.py) wraps the whole extraction of one file in
  \<open>try ... except Exception\<close>. Reading the file gives an exception message or the text;
  classification and the pattern-based extraction (\<open>identify_content_type\<close>,
  \<open>extract_by_content_type\<close>) are the parameter \<open>analyse\<close>, which gives an exception
  message or the content type with the extracted facts. The result is the returned
  dictionary: an error marker holds the key \<open>error\<close>, a facts record does not.
\<close>

datatype extraction =
  ErrorMarker string string string
| Facts string string string nat nat extracted_info string

definition has_error :: "extraction \<Rightarrow> bool" where
  "has_error e = (case e of ErrorMarker fp err ts \<Rightarrow> True | Facts fp ct c lc wc info ts \<Rightarrow> False)"

definition extract_content ::
  "(string \<Rightarrow> string + string) \<Rightarrow> (string \<Rightarrow> string \<Rightarrow> string + string \<times> extracted_info) \<Rightarrow>
   string \<Rightarrow> string \<Rightarrow> extraction" where
  "extract_content read_file analyse now file_path =
     (case read_file file_path of
        Inl e \<Rightarrow> ErrorMarker file_path e now
      | Inr content \<Rightarrow>
          (case analyse file_path content of
             Inl e \<Rightarrow> ErrorMarker file_path e now
           | Inr (content_type, info) \<Rightarrow>
               Facts file_path content_type content
                 (length (split_on (CHR 0x0A) content)) (length (py_split content)) info now))"

text \<open>
  The basic extractor (\<open>extract_content_basic\<close>) stores title, summary and key terms
  at the top level of the record; its content type comes from the file suffix alone and
  is part of what \<open>analyse\<close> returns.
\<close>

datatype extraction_basic =
  ErrorMarkerB string string string
| FactsB string string string nat nat string string "string list" string

definition has_error_basic :: "extraction_basic \<Rightarrow> bool" where
  "has_error_basic e =
     (case e of ErrorMarkerB fp err ts \<Rightarrow> True | FactsB fp ct c lc wc t s k ts \<Rightarrow> False)"

definition extract_content_basic ::
  "(string \<Rightarrow> string + string) \<Rightarrow>
   (string \<Rightarrow> string \<Rightarrow> string + string \<times> string \<times> string \<times> string list) \<Rightarrow>
   string \<Rightarrow> string \<Rightarrow> extraction_basic" where
  "extract_content_basic read_file analyse now file_path =
     (case read_file file_path of
        Inl e \<Rightarrow> ErrorMarkerB file_path e now
      | Inr content \<Rightarrow>
          (case analyse file_path content of
             Inl e \<Rightarrow> ErrorMarkerB file_path e now
           | Inr (content_type, title, summary, key_terms) \<Rightarrow>
               FactsB file_path content_type content
                 (length (split_on (CHR 0x0A) content)) (length (py_split content))
                 title summary key_terms now))"

record concept =
  con_name :: string
  con_type :: string
  con_source_repo :: string
  con_source_file :: string
  con_context :: string
  con_description :: string
  con_tags :: "string list"
  con_timestamp :: string

definition info_concept ::
  "string \<Rightarrow> string \<Rightarrow> string \<Rightarrow> extracted_info \<Rightarrow> string \<Rightarrow> string list \<Rightarrow> string \<Rightarrow> concept" where
  "info_concept now repo_name file_path info ty tags nm =
     \<lparr>con_name = nm, con_type = ty, con_source_repo = repo_name, con_source_file = file_path,
      con_context = info_title info, con_description = info_summary info, con_tags = tags,
      con_timestamp = now\<rparr>"

text \<open>
  \<open>self.nlp\<close> is the loaded language model or \<open>None\<close>; applied to the first 10000
  characters it gives the named entities as pairs of text and label.
\<close>

definition entity_concept :: "string \<Rightarrow> string \<Rightarrow> string \<Rightarrow> extracted_info \<Rightarrow> string \<times> string \<Rightarrow> concept" where
  "entity_concept now repo_name file_path info ent =
     \<lparr>con_name = fst ent, con_type = snd ent, con_source_repo = repo_name,
      con_source_file = file_path, con_context = info_title info, con_description = fst ent,
      con_tags = [''nlp'', ''entity''], con_timestamp = now\<rparr>"

definition extract_concepts_from_extraction ::
  "(string \<Rightarrow> (string \<times> string) list) option \<Rightarrow> string \<Rightarrow> string \<Rightarrow> string \<Rightarrow> string \<Rightarrow> string \<Rightarrow>
   extracted_info \<Rightarrow> concept list" where
  "extract_concepts_from_extraction nlp now repo_name file_path content_type content info =
     (if content_type = ''code''
      then map (info_concept now repo_name file_path info ''function'' [''code'', ''function''])
             (get_list (info_functions info))
           @ map (info_concept now repo_name file_path info ''class'' [''code'', ''class''])
               (get_list (info_classes info))
      else if content_type \<in> set [''documentation'', ''specification'']
      then map (info_concept now repo_name file_path info ''section'' [''documentation'', ''section''])
             (get_list (info_sections info))
      else [])
     @ map (info_concept now repo_name file_path info ''term'' [''term'']) (info_key_terms info)
     @ (case nlp of
          None \<Rightarrow> []
        | Some model \<Rightarrow>
            map (entity_concept now repo_name file_path info)
              (filter (\<lambda>ent. length (py_strip (fst ent)) > 2) (model (take 10000 content))))"

text \<open>
  \<open>path_parts\<close> is \<open>Path(file_path).parts\<close> for a POSIX path: the root, if any, then the
  components that are neither empty nor a single dot.
\<close>

definition path_root :: "string \<Rightarrow> string" where
  "path_root p =
     (if startswith p ''//'' \<and> \<not> startswith p ''///'' then ''//''
      else if startswith p ''/'' then ''/'' else [])"

definition path_parts :: "string \<Rightarrow> string list" where
  "path_parts p =
     (if path_root p = [] then [] else [path_root p])
     @ filter (\<lambda>part. part \<noteq> [] \<and> part \<noteq> ''.'') (split_on CHR ''/'' p)"

definition skipped_suffixes :: "string list" where
  "skipped_suffixes =
     [''.py'', ''.ts'', ''.js'', ''.go'', ''.rs'', ''.ex'', ''.md'', ''.json'', ''.yaml'', ''.yml'']"

definition extract_concepts_basic ::
  "string \<Rightarrow> string \<Rightarrow> string \<Rightarrow> string \<Rightarrow> string \<Rightarrow> string \<Rightarrow> string list \<Rightarrow> concept list" where
  "extract_concepts_basic now repo_name file_path content_type title summary key_terms =
     (if title \<noteq> [] \<and> title \<noteq> ''No Title Found''
      then [\<lparr>con_name = title, con_type = ''title'', con_source_repo = repo_name,
             con_source_file = file_path,
             con_context = (if length summary > 100 then take 100 summary @ ''...'' else summary),
             con_description = summary, con_tags = [content_type, ''title''],
             con_timestamp = now\<rparr>]
      else [])
     @ map (\<lambda>term. \<lparr>con_name = term, con_type = ''term'', con_source_repo = repo_name,
                     con_source_file = file_path, con_context = title, con_description = summary,
                     con_tags = [content_type, ''term''], con_timestamp = now\<rparr>) key_terms
     @ map (\<lambda>part. \<lparr>con_name = part, con_type = ''path_component'', con_source_repo = repo_name,
                     con_source_file = file_path, con_context = title,
                     con_description = ''Part of file path: '' @ file_path,
                     con_tags = [''path'', ''structure''], con_timestamp = now\<rparr>)
         (filter (\<lambda>part. length part > 2 \<and> \<not> list_ex (endswith part) skipped_suffixes)
            (path_parts file_path))"

text \<open>
  The loop of \<open>process_extraction\<close> and of \<open>process_extraction_basic\<close>: a record with the
  key \<open>error\<close> is skipped (\<open>continue\<close>), any other record extends both result lists.
\<close>

record 'e extraction_data =
  ed_repository :: string
  ed_commit_hash :: string
  ed_commit_date :: string
  ed_file_count :: nat
  ed_extractions :: "'e list"
  ed_timestamp :: string

fun process_files ::
  "(string \<Rightarrow> (string \<times> string) list) option \<Rightarrow> string \<Rightarrow> string \<Rightarrow> extraction list \<Rightarrow>
   concept list \<times> relationship list \<Rightarrow> concept list \<times> relationship list" where
  "process_files nlp now repo_name [] acc = acc"
| "process_files nlp now repo_name (ErrorMarker fp err ts # rest) acc =
     process_files nlp now repo_name rest acc"
| "process_files nlp now repo_name (Facts fp ct content lc wc info ts # rest) (concepts, relationships) =
     process_files nlp now repo_name rest
       (concepts @ extract_concepts_from_extraction nlp now repo_name fp ct content info,
        relationships @ extract_relationships_from_extraction now repo_name fp ct content info)"

definition process_extraction ::
  "(string \<Rightarrow> (string \<times> string) list) option \<Rightarrow> string \<Rightarrow> extraction extraction_data \<Rightarrow>
   concept list \<times> relationship list" where
  "process_extraction nlp now data =
     process_files nlp now (ed_repository data) (ed_extractions data) ([], [])"

fun process_files_basic ::
  "string \<Rightarrow> string \<Rightarrow> extraction_basic list \<Rightarrow>
   concept list \<times> relationship list \<Rightarrow> concept list \<times> relationship list" where
  "process_files_basic now repo_name [] acc = acc"
| "process_files_basic now repo_name (ErrorMarkerB fp err ts # rest) acc =
     process_files_basic now repo_name rest acc"
| "process_files_basic now repo_name (FactsB fp ct content lc wc title summary key_terms ts # rest)
     (concepts, relationships) =
     process_files_basic now repo_name rest
       (concepts @ extract_concepts_basic now repo_name fp ct title summary key_terms,
        relationships @ extract_relationships_basic now repo_name fp key_terms)"

definition process_extraction_basic ::
  "string \<Rightarrow> extraction_basic extraction_data \<Rightarrow> concept list \<times> relationship list" where
  "process_extraction_basic now data =
     process_files_basic now (ed_repository data) (ed_extractions data) ([], [])"

section \<open>Principles\<close>

text \<open>
  \<open>extract_principles\<close> (utcp_kb_processor.py): one principle for every concept whose
  lowered name contains an indicator, then the two fixed principles of the source.
\<close>

record principle =
  pr_name :: string
  pr_description :: string
  pr_source_repo :: string
  pr_source_file :: string
  pr_context :: string
  pr_timestamp :: string

definition principle_indicators :: "string list" where
  "principle_indicators =
     [''principle'', ''pattern'', ''design'', ''architecture'', ''protocol'',
      ''standard'', ''specification'', ''rule'', ''guideline'']"

definition concept_principle :: "string \<Rightarrow> concept \<Rightarrow> principle" where
  "concept_principle now c =
     \<lparr>pr_name = con_name c, pr_description = con_description c,
      pr_source_repo = con_source_repo c, pr_source_file = con_source_file c,
      pr_context = con_context c, pr_timestamp = now\<rparr>"

definition utcp_principles :: "string \<Rightarrow> principle list" where
  "utcp_principles now =
     [\<lparr>pr_name = ''Universal Tool Calling'',
       pr_description = ''A protocol that lets AI agents call any native endpoint, over any channel - directly and without wrappers'',
       pr_source_repo = ''utcp-specification'', pr_source_file = ''specification'',
       pr_context = ''Core UTCP principle'', pr_timestamp = now\<rparr>,
      \<lparr>pr_name = ''Direct Tool Access'',
       pr_description = ''AI agents can call tools directly without extra middleware'',
       pr_source_repo = ''utcp-specification'', pr_source_file = ''specification'',
       pr_context = ''Core UTCP principle'', pr_timestamp = now\<rparr>]"

definition extract_principles :: "string \<Rightarrow> concept list \<Rightarrow> relationship list \<Rightarrow> principle list" where
  "extract_principles now concepts relationships =
     map (concept_principle now)
       (filter (\<lambda>c. list_ex (\<lambda>indicator. in_str indicator (py_lower (con_name c)))
                     principle_indicators) concepts)
     @ utcp_principles now"

text \<open>
  The principles part of \<open>extract_wisdom_basic\<close> (basic_utcp_processor.py), which writes
  its list to the same \<open>wisdom/principles/all_principles.json\<close>: the names in the order
  of their first occurrence (the keys of \<open>term_repo_counts\<close>), each with the set of its
  repositories; a name is kept when it has more than one repository and more than three
  characters. The function returns the list it writes to the file.
\<close>

record basic_principle =
  bp_name :: string
  bp_description :: string
  bp_source_repositories :: "string list"
  bp_timestamp :: string

fun join_str :: "string \<Rightarrow> string list \<Rightarrow> string" where
  "join_str sep [] = []"
| "join_str sep [x] = x"
| "join_str sep (x # y # ys) = x @ sep @ join_str sep (y # ys)"

definition first_seen :: "string list \<Rightarrow> string list" where
  "first_seen xs = rev (remdups (rev xs))"

definition repos_of :: "(string \<Rightarrow> nat) \<Rightarrow> concept list \<Rightarrow> string \<Rightarrow> string list" where
  "repos_of h concepts term =
     list_of_set h (map con_source_repo (filter (\<lambda>c. con_name c = term) concepts))"

definition extract_wisdom_basic_principles ::
  "(string \<Rightarrow> nat) \<Rightarrow> string \<Rightarrow> concept list \<Rightarrow> basic_principle list" where
  "extract_wisdom_basic_principles h now concepts =
     map (\<lambda>term. \<lparr>bp_name = term,
                   bp_description = ''Concept '' @ [CHR 0x27] @ term @ [CHR 0x27]
                     @ '' appears in multiple repositories: ''
                     @ join_str '', '' (repos_of h concepts term),
                   bp_source_repositories = repos_of h concepts term,
                   bp_timestamp = now\<rparr>)
       (filter (\<lambda>term. length (repos_of h concepts term) > 1 \<and> length term > 3)
          (first_seen (map con_name concepts)))"

section \<open>The knowledge base accessors\<close>

text \<open>
  \<open>UTCPKnowledgeBase\<close> (utcp_kb_api.py). A value read from a JSON document, and the
  value of an attribute of the instance, is a \<open>json\<close>; \<open>JNull\<close> is Python's \<open>None\<close>.
  The directory tree is a map from paths to nodes: a path that is not mapped does not
  exist, a file holds either the exception that opening or parsing it raises or the parsed
  value.
\<close>

datatype json =
  JNull
| JBool bool
| JInt int
| JFloat real
| JStr string
| JArr "json list"
| JObj "(string \<times> json) list"

datatype py_exception =
  ValueError string
| TypeError string
| KeyError string
| OSError string

datatype node = Dir | File "py_exception + json"

type_synonym filesystem = "string \<Rightarrow> node option"

record knowledge_base =
  kb_path :: string
  kb_concepts :: json
  kb_relationships :: json
  kb_principles :: json
  kb_patterns :: json
  kb_indexes :: "(string \<times> json) list"

definition path_join :: "string \<Rightarrow> string \<Rightarrow> string" where
  "path_join base subpath = base @ ''/'' @ subpath"

definition errno_text :: "string \<Rightarrow> string \<Rightarrow> string \<Rightarrow> string" where
  "errno_text code msg p =
     ''[Errno '' @ code @ ''] '' @ msg @ '': '' @ [CHR 0x27] @ p @ [CHR 0x27]"

definition open_load :: "filesystem \<Rightarrow> string \<Rightarrow> py_exception + json" where
  "open_load fs p =
     (case fs p of
        None \<Rightarrow> Inl (OSError (errno_text ''2'' ''No such file or directory'' p))
      | Some Dir \<Rightarrow> Inl (OSError (errno_text ''21'' ''Is a directory'' p))
      | Some (File r) \<Rightarrow> r)"

definition load_json :: "filesystem \<Rightarrow> knowledge_base \<Rightarrow> string \<Rightarrow> py_exception + json" where
  "load_json fs kb subpath =
     (if fs (path_join (kb_path kb) subpath) \<noteq> None
      then open_load fs (path_join (kb_path kb) subpath)
      else Inr (JArr []))"

text \<open>
  \<open>_load_indexes\<close> runs inside \<open>try ... except Exception\<close>: an index that was stored
  before the exception stays, the exception is printed and dropped.
\<close>

definition load_indexes :: "filesystem \<Rightarrow> string \<Rightarrow> (string \<times> json) list" where
  "load_indexes fs base =
     (let indexes_path = path_join (path_join base ''ai-optimized'') ''indexes'';
          concept_index_path = path_join indexes_path ''concept_index.json'';
          relationship_index_path = path_join indexes_path ''relationship_index.json''
      in if fs indexes_path = None then []
         else
           (if fs concept_index_path \<noteq> None
            then (case open_load fs concept_index_path of
                    Inl e \<Rightarrow> []
                  | Inr v \<Rightarrow>
                      [(''concepts'', v)]
                      @ (if fs relationship_index_path \<noteq> None
                         then (case open_load fs relationship_index_path of
                                 Inl e \<Rightarrow> [] | Inr w \<Rightarrow> [(''relationships'', w)])
                         else []))
            else (if fs relationship_index_path \<noteq> None
                  then (case open_load fs relationship_index_path of
                          Inl e \<Rightarrow> [] | Inr w \<Rightarrow> [(''relationships'', w)])
                  else [])))"

definition new_knowledge_base :: "filesystem \<Rightarrow> string \<Rightarrow> knowledge_base" where
  "new_knowledge_base fs path =
     \<lparr>kb_path = path, kb_concepts = JNull, kb_relationships = JNull, kb_principles = JNull,
      kb_patterns = JNull, kb_indexes = load_indexes fs path\<rparr>"

text \<open>
  Each accessor tests its attribute with \<open>is None\<close>, loads and stores when it is, and
  returns the attribute. An exception of the load leaves the instance as it was.
\<close>

definition get_concepts :: "filesystem \<Rightarrow> knowledge_base \<Rightarrow> (py_exception + json) \<times> knowledge_base" where
  "get_concepts fs kb =
     (if kb_concepts kb = JNull
      then (case load_json fs kb ''processed-knowledge/all_concepts.json'' of
              Inl e \<Rightarrow> (Inl e, kb)
            | Inr v \<Rightarrow> (Inr v, kb\<lparr>kb_concepts := v\<rparr>))
      else (Inr (kb_concepts kb), kb))"

definition get_relationships :: "filesystem \<Rightarrow> knowledge_base \<Rightarrow> (py_exception + json) \<times> knowledge_base" where
  "get_relationships fs kb =
     (if kb_relationships kb = JNull
      then (case load_json fs kb ''processed-knowledge/all_relationships.json'' of
              Inl e \<Rightarrow> (Inl e, kb)
            | Inr v \<Rightarrow> (Inr v, kb\<lparr>kb_relationships := v\<rparr>))
      else (Inr (kb_relationships kb), kb))"

definition get_principles :: "filesystem \<Rightarrow> knowledge_base \<Rightarrow> (py_exception + json) \<times> knowledge_base" where
  "get_principles fs kb =
     (if kb_principles kb = JNull
      then (case load_json fs kb ''wisdom/principles/all_principles.json'' of
              Inl e \<Rightarrow> (Inl e, kb)
            | Inr v \<Rightarrow> (Inr v, kb\<lparr>kb_principles := v\<rparr>))
      else (Inr (kb_principles kb), kb))"

definition get_patterns :: "filesystem \<Rightarrow> knowledge_base \<Rightarrow> (py_exception + json) \<times> knowledge_base" where
  "get_patterns fs kb =
     (if kb_patterns kb = JNull
      then (case load_json fs kb ''wisdom/patterns/all_patterns.json'' of
              Inl e \<Rightarrow> (Inl e, kb)
            | Inr v \<Rightarrow> (Inr v, kb\<lparr>kb_patterns := v\<rparr>))
      else (Inr (kb_patterns kb), kb))"

section \<open>Concept lookup by identifier\<close>

text \<open>
  \<open>py_int\<close> is \<open>int(s)\<close> for a string: surrounding whitespace is dropped, one sign is
  allowed, then decimal digits, where a single underscore may stand between two digits;
  more than 4300 digits are refused. \<open>None\<close> stands for the \<open>ValueError\<close>. The
  whitespace that \<open>int\<close> drops is not that of \<open>str.strip\<close>: of the code points below
  256 it is 9 to 13, 32, 133 and 160, and the separators 28 to 31 make the string invalid.
\<close>

definition int_isspace :: "char \<Rightarrow> bool" where
  "int_isspace c = ((of_char c :: nat) \<in> set [9, 10, 11, 12, 13, 32, 133, 160])"

definition int_strip :: "string \<Rightarrow> string" where
  "int_strip s = rev (dropWhile int_isspace (rev (dropWhile int_isspace s)))"

definition is_digit :: "char \<Rightarrow> bool" where
  "is_digit c = (let n = (of_char c :: nat) in 48 \<le> n \<and> n \<le> 57)"

definition digit_val :: "char \<Rightarrow> int" where
  "digit_val c = int (of_char c) - 48"

fun parse_digits :: "int \<Rightarrow> bool \<Rightarrow> string \<Rightarrow> int option" where
  "parse_digits acc prev [] = (if prev then Some acc else None)"
| "parse_digits acc prev (c # cs) =
     (if is_digit c then parse_digits (10 * acc + digit_val c) True cs
      else if c = CHR ''_'' \<and> prev then parse_digits acc False cs
      else None)"

definition max_str_digits :: nat where
  "max_str_digits = 4300"

definition parse_unsigned :: "string \<Rightarrow> int option" where
  "parse_unsigned s =
     (if length (filter is_digit s) > max_str_digits then None else parse_digits 0 False s)"

definition py_int :: "string \<Rightarrow> int option" where
  "py_int s =
     (case int_strip s of
        [] \<Rightarrow> None
      | c # cs \<Rightarrow>
          if c = CHR ''-'' then map_option uminus (parse_unsigned cs)
          else if c = CHR ''+'' then parse_unsigned cs
          else parse_unsigned (c # cs))"

text \<open>
  \<open>len(x)\<close> and \<open>x[i]\<close> on a loaded value, for an index already known to lie in
  \<open>0 \<le> i < len(x)\<close>: a list gives its element, a string its character, a dictionary raises
  \<open>KeyError\<close> (its keys are strings), and the other values have no length.
\<close>

fun show_nat :: "nat \<Rightarrow> string" where
  "show_nat n =
     (if n < 10 then [char_of (48 + n)] else show_nat (n div 10) @ [char_of (48 + n mod 10)])"

declare show_nat.simps [simp del]

definition py_len :: "json \<Rightarrow> py_exception + nat" where
  "py_len v =
     (case v of
        JArr xs \<Rightarrow> Inr (length xs)
      | JStr s \<Rightarrow> Inr (length s)
      | JObj kvs \<Rightarrow> Inr (length kvs)
      | JNull \<Rightarrow> Inl (TypeError (''object of type '' @ [CHR 0x27] @ ''NoneType'' @ [CHR 0x27] @ '' has no len()''))
      | JBool b \<Rightarrow> Inl (TypeError (''object of type '' @ [CHR 0x27] @ ''bool'' @ [CHR 0x27] @ '' has no len()''))
      | JInt n \<Rightarrow> Inl (TypeError (''object of type '' @ [CHR 0x27] @ ''int'' @ [CHR 0x27] @ '' has no len()''))
      | JFloat x \<Rightarrow> Inl (TypeError (''object of type '' @ [CHR 0x27] @ ''float'' @ [CHR 0x27] @ '' has no len()'')))"

definition py_item :: "json \<Rightarrow> nat \<Rightarrow> py_exception + json" where
  "py_item v i =
     (case v of
        JArr xs \<Rightarrow> Inr (xs ! i)
      | JStr s \<Rightarrow> Inr (JStr [s ! i])
      | JObj kvs \<Rightarrow> Inl (KeyError (show_nat i))
      | JNull \<Rightarrow> Inl (TypeError [])
      | JBool b \<Rightarrow> Inl (TypeError [])
      | JInt n \<Rightarrow> Inl (TypeError [])
      | JFloat x \<Rightarrow> Inl (TypeError []))"

definition exception_str :: "py_exception \<Rightarrow> string" where
  "exception_str e =
     (case e of ValueError m \<Rightarrow> m | TypeError m \<Rightarrow> m | KeyError m \<Rightarrow> m | OSError m \<Rightarrow> m)"

definition error_body :: "string \<Rightarrow> json" where
  "error_body msg = JObj [(''error'', JStr msg)]"

text \<open>
  The handlers of \<open>get_concept_by_id\<close>: \<open>except ValueError\<close> answers 400, any other
  exception answers 500 with its text. A response is the body with the status.
\<close>

definition handle_exception :: "py_exception \<Rightarrow> json \<times> nat" where
  "handle_exception e =
     (case e of
        ValueError m \<Rightarrow> (error_body ''Invalid concept ID'', 400)
      | TypeError m \<Rightarrow> (error_body (exception_str e), 500)
      | KeyError m \<Rightarrow> (error_body (exception_str e), 500)
      | OSError m \<Rightarrow> (error_body (exception_str e), 500))"

definition get_concept_by_id ::
  "filesystem \<Rightarrow> knowledge_base \<Rightarrow> string \<Rightarrow> (json \<times> nat) \<times> knowledge_base" where
  "get_concept_by_id fs kb concept_id =
     (case get_concepts fs kb of
        (Inl e, kb') \<Rightarrow> (handle_exception e, kb')
      | (Inr concepts, kb') \<Rightarrow>
          (case py_int concept_id of
             None \<Rightarrow> (handle_exception (ValueError ''invalid literal for int() with base 10''), kb')
           | Some i \<Rightarrow>
               (case py_len concepts of
                  Inl e \<Rightarrow> (handle_exception e, kb')
                | Inr n \<Rightarrow>
                    if 0 \<le> i \<and> i < int n
                    then (case py_item concepts (nat i) of
                            Inl e \<Rightarrow> (handle_exception e, kb')
                          | Inr v \<Rightarrow> ((v, 200), kb'))
                    else ((error_body ''Concept not found'', 404), kb'))))"

section \<open>The inverted indexes\<close>

text \<open>
  \<open>create_search_index\<close> (basic_utcp_ai_optimizer.py) fills two dictionaries from token
  to list of positions and writes them to the index files; the model returns the two
  dictionaries. \<open>index_words\<close> is the inner loop over the words of one entity,
  \<open>index_texts\<close> the outer loop over the searchable texts with their positions.
\<close>

type_synonym inverted_index = "string \<Rightarrow> nat list option"

definition posting :: "inverted_index \<Rightarrow> string \<Rightarrow> nat list" where
  "posting idx w = (case idx w of None \<Rightarrow> [] | Some ps \<Rightarrow> ps)"

fun index_words :: "inverted_index \<Rightarrow> nat \<Rightarrow> string list \<Rightarrow> inverted_index" where
  "index_words idx i [] = idx"
| "index_words idx i (w # ws) =
     index_words (if length w > 2 then idx(w \<mapsto> posting idx w @ [i]) else idx) i ws"

fun index_texts :: "inverted_index \<Rightarrow> nat \<Rightarrow> string list \<Rightarrow> inverted_index" where
  "index_texts idx i [] = idx"
| "index_texts idx i (t # ts) = index_texts (index_words idx i (py_split t)) (Suc i) ts"

definition concept_text :: "concept \<Rightarrow> string" where
  "concept_text c = py_lower (con_name c) @ '' '' @ py_lower (con_description c)"

definition relationship_text :: "relationship \<Rightarrow> string" where
  "relationship_text r =
     py_lower (rel_source r) @ '' '' @ py_lower (rel_target r) @ '' '' @ py_lower (rel_context r)"

definition create_search_index :: "concept list \<Rightarrow> relationship list \<Rightarrow> inverted_index \<times> inverted_index" where
  "create_search_index concepts relationships =
     (index_texts Map.empty 0 (map concept_text concepts),
      index_texts Map.empty 0 (map relationship_text relationships))"

section \<open>Writing and reading the wisdom files\<close>

text \<open>
  \<open>extract_wisdom\<close> (utcp_kb_processor.py) builds the four lists and \<open>save_wisdom\<close>
  writes them, then a summary, each with \<open>open(path, 'w')\<close> and \<open>json.dump\<close>. A
  dictionary is written as the \<open>json\<close> object of its keys in the order of the source.
  \<open>write_json\<close> fails as \<open>open\<close> does when the path is a directory or its parent is
  missing or a file; other failures of a write are outside the model. The first
  exception ends the run with the earlier files written. A file that was written holds
  the value that was dumped, which is what \<open>json.load\<close> later returns.
\<close>

definition principle_json :: "principle \<Rightarrow> json" where
  "principle_json p =
     JObj [(''name'', JStr (pr_name p)), (''description'', JStr (pr_description p)),
           (''source_repo'', JStr (pr_source_repo p)), (''source_file'', JStr (pr_source_file p)),
           (''context'', JStr (pr_context p)), (''timestamp'', JStr (pr_timestamp p))]"

definition pattern_indicators :: "string list" where
  "pattern_indicators =
     [''pattern'', ''architecture'', ''design'', ''model'', ''approach'',
      ''method'', ''strategy'', ''technique'', ''implementation'']"

definition extract_patterns :: "string \<Rightarrow> concept list \<Rightarrow> relationship list \<Rightarrow> principle list" where
  "extract_patterns now concepts relationships =
     map (concept_principle now)
       (filter (\<lambda>c. list_ex (\<lambda>indicator. in_str indicator (py_lower (con_name c)))
                     pattern_indicators) concepts)"

definition practice_indicators :: "string list" where
  "practice_indicators =
     [''best practice'', ''recommendation'', ''guideline'', ''should'', ''must'',
      ''advice'', ''tip'', ''approach'', ''method'', ''procedure'']"

definition extract_best_practices :: "string \<Rightarrow> concept list \<Rightarrow> relationship list \<Rightarrow> principle list" where
  "extract_best_practices now concepts relationships =
     map (\<lambda>c. (concept_principle now c)\<lparr>pr_name := ''Best Practice: '' @ con_name c\<rparr>)
       (filter (\<lambda>c. con_type c \<in> set [''comment'', ''documentation'', ''section'']
                    \<and> list_ex (\<lambda>indicator. in_str indicator (py_lower (con_description c)))
                          practice_indicators) concepts)"

definition insight_json :: "string \<Rightarrow> relationship \<Rightarrow> json" where
  "insight_json now r =
     JObj [(''name'', JStr (''Relationship: '' @ rel_source r @ '' -> '' @ rel_target r)),
           (''description'', JStr (rel_context r)), (''type'', JStr (rel_type r)),
           (''strength'', JFloat (rel_strength r)), (''source_repo'', JStr (rel_source_repo r)),
           (''source_file'', JStr (rel_source_file r)), (''timestamp'', JStr now)]"

definition extract_insights :: "string \<Rightarrow> concept list \<Rightarrow> relationship list \<Rightarrow> json list" where
  "extract_insights now concepts relationships =
     map (insight_json now) (filter (\<lambda>r. rel_strength r > 0.7) relationships)"

definition dirname :: "string \<Rightarrow> string" where
  "dirname p = rev (drop 1 (dropWhile (\<lambda>c. c \<noteq> CHR ''/'') (rev p)))"

definition write_json :: "filesystem \<Rightarrow> string \<Rightarrow> json \<Rightarrow> py_exception + filesystem" where
  "write_json fs p v =
     (if fs p = Some Dir then Inl (OSError (errno_text ''21'' ''Is a directory'' p))
      else if dirname p = [] then Inr (fs(p \<mapsto> File (Inr v)))
      else (case fs (dirname p) of
              None \<Rightarrow> Inl (OSError (errno_text ''2'' ''No such file or directory'' p))
            | Some Dir \<Rightarrow> Inr (fs(p \<mapsto> File (Inr v)))
            | Some (File r) \<Rightarrow> Inl (OSError (errno_text ''20'' ''Not a directory'' p))))"

fun write_all :: "filesystem \<Rightarrow> (string \<times> json) list \<Rightarrow> py_exception option \<times> filesystem" where
  "write_all fs [] = (None, fs)"
| "write_all fs ((p, v) # rest) =
     (case write_json fs p v of
        Inl e \<Rightarrow> (Some e, fs)
      | Inr fs' \<Rightarrow> write_all fs' rest)"

definition save_wisdom ::
  "string \<Rightarrow> filesystem \<Rightarrow> json list \<Rightarrow> json list \<Rightarrow> json list \<Rightarrow> json list \<Rightarrow>
   py_exception option \<times> filesystem" where
  "save_wisdom now fs principles patterns best_practices insights =
     write_all fs
       [(''.utcp-kb/wisdom/principles/all_principles.json'', JArr principles),
        (''.utcp-kb/wisdom/patterns/all_patterns.json'', JArr patterns),
        (''.utcp-kb/wisdom/best_practices/all_best_practices.json'', JArr best_practices),
        (''.utcp-kb/wisdom/insights/all_insights.json'', JArr insights),
        (''.utcp-kb/wisdom/summary.json'',
         JObj [(''total_principles'', JInt (int (length principles))),
               (''total_patterns'', JInt (int (length patterns))),
               (''total_best_practices'', JInt (int (length best_practices))),
               (''total_insights'', JInt (int (length insights))),
               (''timestamp'', JStr now)])]"

definition extract_wisdom ::
  "string \<Rightarrow> filesystem \<Rightarrow> concept list \<Rightarrow> relationship list \<Rightarrow> py_exception option \<times> filesystem" where
  "extract_wisdom now fs concepts relationships =
     save_wisdom now fs
       (map principle_json (extract_principles now concepts relationships))
       (map principle_json (extract_patterns now concepts relationships))
       (map principle_json (extract_best_practices now concepts relationships))
       (extract_insights now concepts relationships)"

text \<open>
  \<open>get_wisdom\<close> of the generated API (utcp_kb_system.py) reads the four files with
  \<open>load_data\<close>, which gives the empty list for a missing file, and answers with the
  dictionary of the four categories; an exception of a load leaves the handler.
\<close>

definition load_data :: "filesystem \<Rightarrow> string \<Rightarrow> py_exception + json" where
  "load_data fs p = (if fs p \<noteq> None then open_load fs p else Inr (JArr []))"

definition get_wisdom :: "filesystem \<Rightarrow> py_exception + json" where
  "get_wisdom fs =
     (case load_data fs ''.utcp-kb/wisdom/principles/all_principles.json'' of
        Inl e \<Rightarrow> Inl e
      | Inr principles \<Rightarrow>
     (case load_data fs ''.utcp-kb/wisdom/patterns/all_patterns.json'' of
        Inl e \<Rightarrow> Inl e
      | Inr patterns \<Rightarrow>
     (case load_data fs ''.utcp-kb/wisdom/best_practices/all_best_practices.json'' of
        Inl e \<Rightarrow> Inl e
      | Inr best_practices \<Rightarrow>
     (case load_data fs ''.utcp-kb/wisdom/insights/all_insights.json'' of
        Inl e \<Rightarrow> Inl e
      | Inr insights \<Rightarrow>
          Inr (JObj [(''principles'', principles), (''patterns'', patterns),
                     (''best_practices'', best_practices), (''insights'', insights)])))))"

section \<open>Properties of relationship generation\<close>

lemma later_pairs_prop:
  assumes "\<And>x y. x \<noteq> y \<Longrightarrow> P (mk x y)"
  shows "\<forall>r \<in> set (later_pairs mk xs). P r"
  using assms by (induction xs) auto

lemma cross_pairs_prop:
  assumes "\<And>x y. P (mk x y)"
  shows "\<forall>r \<in> set (cross_pairs mk cs fs). P r"
  using assms by (auto simp: cross_pairs_def)

text \<open>
  Claim C1. Every relationship that either generator emits with a type other than
  \<open>contains\<close> (the \<open>same_file\<close> and \<open>co_occurrence\<close> pairs, which come from one list and
  pass the test \<open>x != y\<close>) has a source different from its target. The \<open>contains\<close>
  relationships are emitted for every pair of the cross product of classes and functions,
  and for every key term under the repository name, with no test on the pair.
\<close>

theorem relationship_endpoints_differ:
  "(\<forall>r \<in> set (extract_relationships_from_extraction now repo_name file_path content_type content info).
      rel_type r \<noteq> ''contains'' \<longrightarrow> rel_source r \<noteq> rel_target r)
   \<and> (\<forall>r \<in> set (extract_relationships_basic now repo_name file_path key_terms).
      rel_type r \<noteq> ''contains'' \<longrightarrow> rel_source r \<noteq> rel_target r)
   \<and> (content_type = ''code'' \<longrightarrow>
        (\<forall>cls \<in> set (get_list (info_classes info)). \<forall>func \<in> set (get_list (info_functions info)).
           class_contains_rel now repo_name file_path cls func
             \<in> set (extract_relationships_from_extraction now repo_name file_path content_type content info)))
   \<and> (\<forall>term \<in> set key_terms.
        repo_contains_rel now repo_name file_path term
          \<in> set (extract_relationships_basic now repo_name file_path key_terms))"
proof -
  let ?P = "\<lambda>r. rel_type r \<noteq> ''contains'' \<longrightarrow> rel_source r \<noteq> rel_target r"
  have a: "\<forall>r \<in> set (later_pairs (same_file_rel now repo_name file_path) xs). ?P r" for xs
    by (rule later_pairs_prop) (simp add: same_file_rel_def)
  have b: "\<forall>r \<in> set (later_pairs (co_occurrence_rel now repo_name file_path) xs). ?P r" for xs
    by (rule later_pairs_prop) (simp add: co_occurrence_rel_def)
  have c: "\<forall>r \<in> set (cross_pairs (class_contains_rel now repo_name file_path) cs fs). ?P r" for cs fs
    by (rule cross_pairs_prop) (simp add: class_contains_rel_def)
  have d: "\<forall>r \<in> set (later_pairs (co_occurrence_basic now repo_name file_path) xs). ?P r" for xs
    by (rule later_pairs_prop) (simp add: co_occurrence_basic_def)
  have e: "\<forall>r \<in> set (map (repo_contains_rel now repo_name file_path) xs). ?P r" for xs
    by (simp add: repo_contains_rel_def)
  have 1: "\<forall>r \<in> set (extract_relationships_from_extraction now repo_name file_path content_type content info). ?P r"
    unfolding extract_relationships_from_extraction_def using a b c by auto
  have 2: "\<forall>r \<in> set (extract_relationships_basic now repo_name file_path key_terms). ?P r"
    unfolding extract_relationships_basic_def using d e by auto
  have 3: "content_type = ''code'' \<longrightarrow>
        (\<forall>cls \<in> set (get_list (info_classes info)). \<forall>func \<in> set (get_list (info_functions info)).
           class_contains_rel now repo_name file_path cls func
             \<in> set (extract_relationships_from_extraction now repo_name file_path content_type content info))"
    by (auto simp: extract_relationships_from_extraction_def cross_pairs_def)
  have 4: "\<forall>term \<in> set key_terms.
        repo_contains_rel now repo_name file_path term
          \<in> set (extract_relationships_basic now repo_name file_path key_terms)"
    by (auto simp: extract_relationships_basic_def)
  from 1 2 3 4 show ?thesis by blast
qed

theorem relationship_endpoints_differ_witness:
  "same_file_rel ''t'' ''repo'' ''a.py'' ''foo'' ''bar''
     \<in> set (extract_relationships_from_extraction ''t'' ''repo'' ''a.py'' ''code'' ''def foo(): ...''
         \<lparr>info_title = ''T'', info_summary = ''S'', info_key_terms = [''UTCP'', ''API''],
          info_functions = Some [''foo'', ''bar''], info_classes = Some [''Baz''],
          info_sections = None\<rparr>)
   \<and> rel_type (same_file_rel ''t'' ''repo'' ''a.py'' ''foo'' ''bar'') \<noteq> ''contains''
   \<and> rel_source (same_file_rel ''t'' ''repo'' ''a.py'' ''foo'' ''bar'')
       \<noteq> rel_target (same_file_rel ''t'' ''repo'' ''a.py'' ''foo'' ''bar'')
   \<and> co_occurrence_basic ''t'' ''repo'' ''a.md'' ''UTCP'' ''API''
       \<in> set (extract_relationships_basic ''t'' ''repo'' ''a.md'' [''UTCP'', ''API''])
   \<and> rel_type (co_occurrence_basic ''t'' ''repo'' ''a.md'' ''UTCP'' ''API'') \<noteq> ''contains''
   \<and> rel_source (co_occurrence_basic ''t'' ''repo'' ''a.md'' ''UTCP'' ''API'')
       \<noteq> rel_target (co_occurrence_basic ''t'' ''repo'' ''a.md'' ''UTCP'' ''API'')
   \<and> ''Baz'' \<in> set (get_list (Some [''Baz''])) \<and> ''bar'' \<in> set (get_list (Some [''foo'', ''bar'']))
   \<and> class_contains_rel ''t'' ''repo'' ''a.py'' ''Baz'' ''bar''
       \<in> set (extract_relationships_from_extraction ''t'' ''repo'' ''a.py'' ''code'' ''def foo(): ...''
         \<lparr>info_title = ''T'', info_summary = ''S'', info_key_terms = [''UTCP'', ''API''],
          info_functions = Some [''foo'', ''bar''], info_classes = Some [''Baz''],
          info_sections = None\<rparr>)
   \<and> ''API'' \<in> set [''UTCP'', ''API'']
   \<and> repo_contains_rel ''t'' ''repo'' ''a.md'' ''API''
       \<in> set (extract_relationships_basic ''t'' ''repo'' ''a.md'' [''UTCP'', ''API''])"
  using relationship_endpoints_differ [of "''t''" "''repo''" "''a.py''" "''code''" "''def foo(): ...''"
      "\<lparr>info_title = ''T'', info_summary = ''S'', info_key_terms = [''UTCP'', ''API''],
          info_functions = Some [''foo'', ''bar''], info_classes = Some [''Baz''],
          info_sections = None\<rparr>" "[''UTCP'', ''API'']"]
    relationship_endpoints_differ [of "''t''" "''repo''" "''a.md''" "''code''" "''def foo(): ...''"
      "\<lparr>info_title = ''T'', info_summary = ''S'', info_key_terms = [''UTCP'', ''API''],
          info_functions = Some [''foo'', ''bar''], info_classes = Some [''Baz''],
          info_sections = None\<rparr>" "[''UTCP'', ''API'']"]
  by (simp add: extract_relationships_from_extraction_def extract_relationships_basic_def
      get_list_def cross_pairs_def same_file_rel_def co_occurrence_basic_def
      class_contains_rel_def repo_contains_rel_def co_occurrence_rel_def)

text \<open>
  As stated for all relationships the claim fails: a file that declares a class and a
  function of the same name, and a key term equal to the repository name, each give a
  \<open>contains\<close> relationship from a name to itself.
\<close>

theorem contains_self_pair_counterexample:
  "map rel_source (extract_relationships_from_extraction ''t'' ''repo'' ''a.py'' ''code''
       ''class Foo: ...''
       \<lparr>info_title = ''T'', info_summary = ''S'', info_key_terms = [],
        info_functions = Some [''Foo''], info_classes = Some [''Foo''], info_sections = None\<rparr>)
     = [''Foo'']
   \<and> map rel_target (extract_relationships_from_extraction ''t'' ''repo'' ''a.py'' ''code''
       ''class Foo: ...''
       \<lparr>info_title = ''T'', info_summary = ''S'', info_key_terms = [],
        info_functions = Some [''Foo''], info_classes = Some [''Foo''], info_sections = None\<rparr>)
     = [''Foo'']
   \<and> map rel_source (extract_relationships_basic ''t'' ''python-utcp'' ''README.md'' [''python-utcp''])
     = [''python-utcp'']
   \<and> map rel_target (extract_relationships_basic ''t'' ''python-utcp'' ''README.md'' [''python-utcp''])
     = [''python-utcp'']"
  by (simp add: extract_relationships_from_extraction_def extract_relationships_basic_def
      get_list_def cross_pairs_def class_contains_rel_def repo_contains_rel_def)

text \<open>
  Claim C2. In the output of both generators the strength is fixed by the type:
  \<open>co_occurrence\<close> has 0.5, \<open>contains\<close> has 0.8 and \<open>same_file\<close> has 1.0.
\<close>

theorem relationship_strength_by_type:
  "(\<forall>r \<in> set (extract_relationships_from_extraction now repo_name file_path content_type content info).
      (rel_type r = ''co_occurrence'' \<longrightarrow> rel_strength r = 0.5)
      \<and> (rel_type r = ''contains'' \<longrightarrow> rel_strength r = 0.8)
      \<and> (rel_type r = ''same_file'' \<longrightarrow> rel_strength r = 1.0))
   \<and> (\<forall>r \<in> set (extract_relationships_basic now repo_name file_path key_terms).
      (rel_type r = ''co_occurrence'' \<longrightarrow> rel_strength r = 0.5)
      \<and> (rel_type r = ''contains'' \<longrightarrow> rel_strength r = 0.8)
      \<and> (rel_type r = ''same_file'' \<longrightarrow> rel_strength r = 1.0))"
proof -
  let ?P = "\<lambda>r. (rel_type r = ''co_occurrence'' \<longrightarrow> rel_strength r = 0.5)
      \<and> (rel_type r = ''contains'' \<longrightarrow> rel_strength r = 0.8)
      \<and> (rel_type r = ''same_file'' \<longrightarrow> rel_strength r = 1.0)"
  have a: "\<forall>r \<in> set (later_pairs (same_file_rel now repo_name file_path) xs). ?P r" for xs
    by (rule later_pairs_prop) (simp add: same_file_rel_def)
  have b: "\<forall>r \<in> set (later_pairs (co_occurrence_rel now repo_name file_path) xs). ?P r" for xs
    by (rule later_pairs_prop) (simp add: co_occurrence_rel_def)
  have c: "\<forall>r \<in> set (cross_pairs (class_contains_rel now repo_name file_path) cs fs). ?P r" for cs fs
    by (rule cross_pairs_prop) (simp add: class_contains_rel_def)
  have d: "\<forall>r \<in> set (later_pairs (co_occurrence_basic now repo_name file_path) xs). ?P r" for xs
    by (rule later_pairs_prop) (simp add: co_occurrence_basic_def)
  have e: "\<forall>r \<in> set (map (repo_contains_rel now repo_name file_path) xs). ?P r" for xs
    by (simp add: repo_contains_rel_def)
  have 1: "\<forall>r \<in> set (extract_relationships_from_extraction now repo_name file_path content_type content info). ?P r"
    unfolding extract_relationships_from_extraction_def using a b c by auto
  have 2: "\<forall>r \<in> set (extract_relationships_basic now repo_name file_path key_terms). ?P r"
    unfolding extract_relationships_basic_def using d e by auto
  from 1 2 show ?thesis by blast
qed

theorem relationship_strength_by_type_witness:
  "class_contains_rel ''t'' ''repo'' ''a.py'' ''Baz'' ''bar''
       \<in> set (extract_relationships_from_extraction ''t'' ''repo'' ''a.py'' ''code'' ''def foo(): ...''
         \<lparr>info_title = ''T'', info_summary = ''S'', info_key_terms = [''UTCP'', ''API''],
          info_functions = Some [''foo'', ''bar''], info_classes = Some [''Baz''],
          info_sections = None\<rparr>)
   \<and> rel_type (class_contains_rel ''t'' ''repo'' ''a.py'' ''Baz'' ''bar'') = ''contains''
   \<and> rel_strength (class_contains_rel ''t'' ''repo'' ''a.py'' ''Baz'' ''bar'') = 0.8
   \<and> same_file_rel ''t'' ''repo'' ''a.py'' ''foo'' ''bar''
       \<in> set (extract_relationships_from_extraction ''t'' ''repo'' ''a.py'' ''code'' ''def foo(): ...''
         \<lparr>info_title = ''T'', info_summary = ''S'', info_key_terms = [''UTCP'', ''API''],
          info_functions = Some [''foo'', ''bar''], info_classes = Some [''Baz''],
          info_sections = None\<rparr>)
   \<and> rel_type (same_file_rel ''t'' ''repo'' ''a.py'' ''foo'' ''bar'') = ''same_file''
   \<and> rel_strength (same_file_rel ''t'' ''repo'' ''a.py'' ''foo'' ''bar'') = 1.0
   \<and> co_occurrence_basic ''t'' ''repo'' ''a.py'' ''UTCP'' ''API''
       \<in> set (extract_relationships_basic ''t'' ''repo'' ''a.py'' [''UTCP'', ''API''])
   \<and> rel_type (co_occurrence_basic ''t'' ''repo'' ''a.py'' ''UTCP'' ''API'') = ''co_occurrence''
   \<and> rel_strength (co_occurrence_basic ''t'' ''repo'' ''a.py'' ''UTCP'' ''API'') = 0.5"
  using relationship_strength_by_type [of "''t''" "''repo''" "''a.py''" "''code''" "''def foo(): ...''"
      "\<lparr>info_title = ''T'', info_summary = ''S'', info_key_terms = [''UTCP'', ''API''],
          info_functions = Some [''foo'', ''bar''], info_classes = Some [''Baz''],
          info_sections = None\<rparr>" "[''UTCP'', ''API'']"]
  by (simp add: extract_relationships_from_extraction_def extract_relationships_basic_def
      get_list_def cross_pairs_def same_file_rel_def co_occurrence_basic_def
      class_contains_rel_def repo_contains_rel_def co_occurrence_rel_def)

section \<open>Properties of title extraction\<close>

lemma title_scan_find:
  "title_scan ls = map_option title_text (find is_title_line ls)"
  by (induction ls) (simp_all add: is_title_line_def title_text_def)

text \<open>
  Claim C3. Both title functions return what is kept of the first title line among the
  leading lines, a title line being one whose stripped form starts with the heading prefix
  or the title prefix. \<open>extract_title\<close> looks at the first 10 lines and returns the
  fixed text \<open>No Title Found\<close> when there is none; \<open>extract_title_basic\<close> looks at
  the first 5 lines and otherwise derives the title from the file name (underscores and
  hyphens become spaces, then title case). The title case of the code points 181 and 255
  lies outside the range of the model, so the fallback is stated for file names without
  them.
\<close>

theorem title_extraction_first_title_line:
  "extract_title content =
     (case find is_title_line (take 10 (split_on (CHR 0x0A) content)) of
        Some line \<Rightarrow> title_text line
      | None \<Rightarrow> ''No Title Found'')
   \<and> (find is_title_line (take 5 (split_on (CHR 0x0A) content)) = Some line \<longrightarrow>
        extract_title_basic content filename = title_text line)
   \<and> (find is_title_line (take 5 (split_on (CHR 0x0A) content)) = None
        \<and> CHR 0xB5 \<notin> set filename \<and> CHR 0xFF \<notin> set filename \<longrightarrow>
        extract_title_basic content filename
          = py_title (replace_char CHR ''-'' CHR '' '' (replace_char CHR ''_'' CHR '' '' filename)))"
  by (simp add: extract_title_def extract_title_basic_def title_scan_find split: option.splits)

theorem title_extraction_first_title_line_witness:
  "extract_title ''intro\<newline>  # My Title \<newline># Second'' = ''My Title''
   \<and> find is_title_line (take 10 (split_on (CHR 0x0A) ''intro\<newline>  # My Title \<newline># Second''))
       = Some ''  # My Title ''
   \<and> find is_title_line (take 5 (split_on (CHR 0x0A) ''intro\<newline>title: Guide''))
       = Some ''title: Guide''
   \<and> extract_title_basic ''intro\<newline>title: Guide'' ''my_file'' = ''Guide''
   \<and> find is_title_line (take 5 (split_on (CHR 0x0A) ''intro\<newline>text'')) = None
   \<and> CHR 0xB5 \<notin> set [CHR 0xE9, CHR ''c'', CHR ''l'', CHR ''_'', CHR ''n'', CHR ''a'', CHR 0xEF, CHR ''v'', CHR ''e'', CHR ''.'', CHR ''m'', CHR ''d'']
   \<and> CHR 0xFF \<notin> set [CHR 0xE9, CHR ''c'', CHR ''l'', CHR ''_'', CHR ''n'', CHR ''a'', CHR 0xEF, CHR ''v'', CHR ''e'', CHR ''.'', CHR ''m'', CHR ''d'']
   \<and> extract_title_basic ''intro\<newline>text''
        [CHR 0xE9, CHR ''c'', CHR ''l'', CHR ''_'', CHR ''n'', CHR ''a'', CHR 0xEF, CHR ''v'', CHR ''e'', CHR ''.'', CHR ''m'', CHR ''d'']
       = [CHR 0xC9, CHR ''c'', CHR ''l'', CHR '' '', CHR ''N'', CHR ''a'', CHR 0xEF, CHR ''v'', CHR ''e'', CHR ''.'', CHR ''M'', CHR ''d'']"
proof -
  let ?f = "[CHR 0xE9, CHR ''c'', CHR ''l'', CHR ''_'', CHR ''n'', CHR ''a'', CHR 0xEF, CHR ''v'', CHR ''e'', CHR ''.'', CHR ''m'', CHR ''d'']"
  have a: "find is_title_line (take 10 (split_on (CHR 0x0A) ''intro\<newline>  # My Title \<newline># Second''))
       = Some ''  # My Title ''"
    by code_simp
  have b: "title_text ''  # My Title '' = ''My Title''"
    by code_simp
  have c: "find is_title_line (take 5 (split_on (CHR 0x0A) ''intro\<newline>text'')) = None"
    by code_simp
  have d: "py_title (replace_char CHR ''-'' CHR '' '' (replace_char CHR ''_'' CHR '' '' ?f))
      = [CHR 0xC9, CHR ''c'', CHR ''l'', CHR '' '', CHR ''N'', CHR ''a'', CHR 0xEF, CHR ''v'', CHR ''e'', CHR ''.'', CHR ''M'', CHR ''d'']"
    by code_simp
  have g: "find is_title_line (take 5 (split_on (CHR 0x0A) ''intro\<newline>title: Guide''))
       = Some ''title: Guide''"
    by code_simp
  have h: "title_text ''title: Guide'' = ''Guide''"
    by code_simp
  have n1: "CHR 0xB5 \<notin> set ?f" by simp
  have n2: "CHR 0xFF \<notin> set ?f" by simp
  note t1 = title_extraction_first_title_line
    [of "''intro\<newline>  # My Title \<newline># Second''" "''  # My Title ''" "''my_file''"]
  note t2 = title_extraction_first_title_line
    [of "''intro\<newline>title: Guide''" "''title: Guide''" "''my_file''"]
  note t3 = title_extraction_first_title_line [of "''intro\<newline>text''" "[]" ?f]
  have e: "extract_title ''intro\<newline>  # My Title \<newline># Second'' = ''My Title''"
    using t1 unfolding a by (simp add: b)
  have e2: "extract_title_basic ''intro\<newline>title: Guide'' ''my_file'' = ''Guide''"
    using t2 g h by simp
  have f: "extract_title_basic ''intro\<newline>text'' ?f
       = [CHR 0xC9, CHR ''c'', CHR ''l'', CHR '' '', CHR ''N'', CHR ''a'', CHR 0xEF, CHR ''v'', CHR ''e'', CHR ''.'', CHR ''M'', CHR ''d'']"
    using t3 c n1 n2 d by simp
  from e a g e2 c n1 n2 f show ?thesis by blast
qed

text \<open>
  The claim joins the 10 lines of one function with the file-name fallback of the
  other. A heading on the sixth line is inside the first 10 lines, yet
  \<open>extract_title_basic\<close> falls back to the file name; and \<open>extract_title\<close>, which has
  no file name, returns its fixed text when no line is a title line.
\<close>

theorem title_extraction_counterexample:
  "extract_title_basic ''a\<newline>b\<newline>c\<newline>d\<newline>e\<newline># Late Title'' ''my_file.md'' = ''My File.Md''
   \<and> extract_title ''plain text\<newline>more text'' = ''No Title Found''"
  by code_simp

section \<open>Properties of principle extraction\<close>

lemma write_json_result:
  "write_json fs p v = Inr fs' \<Longrightarrow> fs' = fs(p \<mapsto> File (Inr v))"
  by (auto simp: write_json_def split: if_splits option.splits node.splits)

lemma write_all_other:
  "write_all fs pvs = (None, fs') \<Longrightarrow> p \<notin> fst ` set pvs \<Longrightarrow> fs' p = fs p"
proof (induction pvs arbitrary: fs)
  case Nil
  then show ?case by simp
next
  case (Cons a pvs)
  obtain q v where a: "a = (q, v)" by (cases a)
  from Cons.prems(1) a obtain fs1 where w: "write_json fs q v = Inr fs1"
    and r: "write_all fs1 pvs = (None, fs')"
    by (auto split: sum.splits)
  from Cons.prems(2) a have "p \<noteq> q" "p \<notin> fst ` set pvs" by auto
  with Cons.IH [OF r] write_json_result [OF w] show ?case by simp
qed

lemma write_all_written:
  "write_all fs pvs = (None, fs') \<Longrightarrow> distinct (map fst pvs) \<Longrightarrow> (p, v) \<in> set pvs \<Longrightarrow>
     fs' p = Some (File (Inr v))"
proof (induction pvs arbitrary: fs)
  case Nil
  then show ?case by simp
next
  case (Cons a pvs)
  obtain q u where a: "a = (q, u)" by (cases a)
  from Cons.prems(1) a obtain fs1 where w: "write_json fs q u = Inr fs1"
    and r: "write_all fs1 pvs = (None, fs')"
    by (auto split: sum.splits)
  from Cons.prems(2) a have d: "distinct (map fst pvs)" and nq: "q \<notin> fst ` set pvs" by auto
  show ?case
  proof (cases "(p, v) = (q, u)")
    case True
    with write_all_other [OF r nq] write_json_result [OF w] show ?thesis by simp
  next
    case False
    with Cons.prems(3) a have "(p, v) \<in> set pvs" by auto
    from Cons.IH [OF r d this] show ?thesis .
  qed
qed

lemma save_wisdom_files:
  assumes "save_wisdom now fs principles patterns best_practices insights = (None, fs')"
  shows "fs' ''.utcp-kb/wisdom/principles/all_principles.json'' = Some (File (Inr (JArr principles)))"
    and "fs' ''.utcp-kb/wisdom/patterns/all_patterns.json'' = Some (File (Inr (JArr patterns)))"
    and "fs' ''.utcp-kb/wisdom/best_practices/all_best_practices.json''
           = Some (File (Inr (JArr best_practices)))"
    and "fs' ''.utcp-kb/wisdom/insights/all_insights.json'' = Some (File (Inr (JArr insights)))"
proof -
  let ?pvs = "[(''.utcp-kb/wisdom/principles/all_principles.json'', JArr principles),
        (''.utcp-kb/wisdom/patterns/all_patterns.json'', JArr patterns),
        (''.utcp-kb/wisdom/best_practices/all_best_practices.json'', JArr best_practices),
        (''.utcp-kb/wisdom/insights/all_insights.json'', JArr insights),
        (''.utcp-kb/wisdom/summary.json'',
         JObj [(''total_principles'', JInt (int (length principles))),
               (''total_patterns'', JInt (int (length patterns))),
               (''total_best_practices'', JInt (int (length best_practices))),
               (''total_insights'', JInt (int (length insights))),
               (''timestamp'', JStr now)])]"
  have w: "write_all fs ?pvs = (None, fs')"
    using assms by (simp only: save_wisdom_def)
  have d: "distinct (map fst ?pvs)"
    by simp
  note r = write_all_written [OF w d]
  show "fs' ''.utcp-kb/wisdom/principles/all_principles.json'' = Some (File (Inr (JArr principles)))"
    by (rule r) simp
  show "fs' ''.utcp-kb/wisdom/patterns/all_patterns.json'' = Some (File (Inr (JArr patterns)))"
    by (rule r) simp
  show "fs' ''.utcp-kb/wisdom/best_practices/all_best_practices.json''
           = Some (File (Inr (JArr best_practices)))"
    by (rule r) simp
  show "fs' ''.utcp-kb/wisdom/insights/all_insights.json'' = Some (File (Inr (JArr insights)))"
    by (rule r) simp
qed

lemma get_wisdom_of_files:
  assumes "fs ''.utcp-kb/wisdom/principles/all_principles.json'' = Some (File (Inr a))"
    and "fs ''.utcp-kb/wisdom/patterns/all_patterns.json'' = Some (File (Inr b))"
    and "fs ''.utcp-kb/wisdom/best_practices/all_best_practices.json'' = Some (File (Inr c))"
    and "fs ''.utcp-kb/wisdom/insights/all_insights.json'' = Some (File (Inr d))"
  shows "get_wisdom fs = Inr (JObj [(''principles'', a), (''patterns'', b),
                     (''best_practices'', c), (''insights'', d)])"
  using assms by (simp add: get_wisdom_def load_data_def open_load_def)

lemma length_list_of_set: "length (list_of_set h xs) = card (set xs)"
  by (simp add: list_of_set_def length_remdups_card_conv)

lemma set_first_seen: "set (first_seen xs) = set xs"
  by (simp add: first_seen_def)

lemma length_repos_of:
  "length (repos_of h concepts term)
     = card (con_source_repo ` {c \<in> set concepts. con_name c = term})"
  by (simp add: repos_of_def length_list_of_set)

text \<open>
  Claim C4. \<open>extract_principles\<close> of the full processor ends its output with the two
  fixed principles, Universal Tool Calling and Direct Tool Access, for every concept
  collection, and returns exactly these two for the empty collection. When
  \<open>extract_wisdom\<close> has written its files, \<open>get_wisdom\<close> answers with that list under
  \<open>principles\<close>, a new knowledge base on the same directory returns it from
  \<open>get_principles\<close>, and its last two entries are the two fixed principles. The basic
  processor has no fixed list: the names of the principles of \<open>extract_wisdom_basic\<close>
  are exactly the concept names of more than three characters that occur under more than
  one repository, and for the empty collection there is none.
\<close>

theorem seed_principles_always_appended:
  "drop (length (extract_principles now concepts relationships) - 2)
       (extract_principles now concepts relationships) = utcp_principles now
   \<and> set (utcp_principles now) \<subseteq> set (extract_principles now concepts relationships)
   \<and> extract_principles now [] relationships = utcp_principles now
   \<and> map pr_name (utcp_principles now) = [''Universal Tool Calling'', ''Direct Tool Access'']
   \<and> (extract_wisdom now fs concepts relationships = (None, fs') \<longrightarrow>
        get_wisdom fs'
          = Inr (JObj [(''principles'',
                        JArr (map principle_json (extract_principles now concepts relationships))),
                       (''patterns'',
                        JArr (map principle_json (extract_patterns now concepts relationships))),
                       (''best_practices'',
                        JArr (map principle_json (extract_best_practices now concepts relationships))),
                       (''insights'', JArr (extract_insights now concepts relationships))])
        \<and> fst (get_principles fs' (new_knowledge_base fs' ''.utcp-kb''))
          = Inr (JArr (map principle_json (extract_principles now concepts relationships)))
        \<and> drop (length (extract_principles now concepts relationships) - 2)
             (map principle_json (extract_principles now concepts relationships))
          = map principle_json (utcp_principles now))
   \<and> extract_wisdom_basic_principles h now [] = []
   \<and> set (map bp_name (extract_wisdom_basic_principles h now concepts))
        = {term \<in> set (map con_name concepts).
             card (con_source_repo ` {c \<in> set concepts. con_name c = term}) > 1 \<and> length term > 3}"
proof -
  have len: "length (utcp_principles now) = 2"
    by (simp add: utcp_principles_def)
  have 1: "drop (length (extract_principles now concepts relationships) - 2)
       (extract_principles now concepts relationships) = utcp_principles now"
    by (simp add: extract_principles_def len)
  have 2: "set (utcp_principles now) \<subseteq> set (extract_principles now concepts relationships)"
    by (simp add: extract_principles_def)
  have 3: "extract_principles now [] relationships = utcp_principles now"
    by (simp add: extract_principles_def)
  have 4: "map pr_name (utcp_principles now) = [''Universal Tool Calling'', ''Direct Tool Access'']"
    by (simp add: utcp_principles_def)
  have 5: "get_wisdom fs'
          = Inr (JObj [(''principles'',
                        JArr (map principle_json (extract_principles now concepts relationships))),
                       (''patterns'',
                        JArr (map principle_json (extract_patterns now concepts relationships))),
                       (''best_practices'',
                        JArr (map principle_json (extract_best_practices now concepts relationships))),
                       (''insights'', JArr (extract_insights now concepts relationships))])
        \<and> fst (get_principles fs' (new_knowledge_base fs' ''.utcp-kb''))
          = Inr (JArr (map principle_json (extract_principles now concepts relationships)))"
    if w: "extract_wisdom now fs concepts relationships = (None, fs')"
  proof -
    note files = save_wisdom_files [OF w [unfolded extract_wisdom_def]]
    have a: "get_wisdom fs'
          = Inr (JObj [(''principles'',
                        JArr (map principle_json (extract_principles now concepts relationships))),
                       (''patterns'',
                        JArr (map principle_json (extract_patterns now concepts relationships))),
                       (''best_practices'',
                        JArr (map principle_json (extract_best_practices now concepts relationships))),
                       (''insights'', JArr (extract_insights now concepts relationships))])"
      using files by (rule get_wisdom_of_files)
    have b: "fst (get_principles fs' (new_knowledge_base fs' ''.utcp-kb''))
          = Inr (JArr (map principle_json (extract_principles now concepts relationships)))"
      using files(1)
      by (simp add: get_principles_def new_knowledge_base_def load_json_def open_load_def
          path_join_def)
    from a b show ?thesis by blast
  qed
  have 6: "drop (length (extract_principles now concepts relationships) - 2)
             (map principle_json (extract_principles now concepts relationships))
          = map principle_json (utcp_principles now)"
    unfolding drop_map using 1 by simp
  have 7: "extract_wisdom_basic_principles h now [] = []"
    by (simp add: extract_wisdom_basic_principles_def first_seen_def)
  have 8: "set (map bp_name (extract_wisdom_basic_principles h now concepts))
        = {term \<in> set (map con_name concepts).
             card (con_source_repo ` {c \<in> set concepts. con_name c = term}) > 1 \<and> length term > 3}"
    by (auto simp: extract_wisdom_basic_principles_def set_first_seen length_repos_of comp_def
        image_iff)
  from 1 2 3 4 5 6 7 8 show ?thesis by blast
qed

theorem seed_principles_always_appended_witness:
  "map pr_name (extract_principles ''t''
      [\<lparr>con_name = ''Design Pattern'', con_type = ''term'', con_source_repo = ''r1'',
         con_source_file = ''a.md'', con_context = ''T'', con_description = ''S'',
         con_tags = [''term''], con_timestamp = ''t''\<rparr>,
       \<lparr>con_name = ''Client'', con_type = ''term'', con_source_repo = ''r1'',
         con_source_file = ''a.md'', con_context = ''T'', con_description = ''S'',
         con_tags = [''term''], con_timestamp = ''t''\<rparr>] [])
     = [''Design Pattern'', ''Universal Tool Calling'', ''Direct Tool Access'']
   \<and> map pr_name (extract_principles ''t'' [] []) = [''Universal Tool Calling'', ''Direct Tool Access'']
   \<and> fst (extract_wisdom ''t''
        (Map.empty(''.utcp-kb/wisdom/principles'' \<mapsto> Dir, ''.utcp-kb/wisdom/patterns'' \<mapsto> Dir,
           ''.utcp-kb/wisdom/best_practices'' \<mapsto> Dir, ''.utcp-kb/wisdom/insights'' \<mapsto> Dir,
           ''.utcp-kb/wisdom'' \<mapsto> Dir)) [] []) = None
   \<and> get_wisdom (snd (extract_wisdom ''t''
        (Map.empty(''.utcp-kb/wisdom/principles'' \<mapsto> Dir, ''.utcp-kb/wisdom/patterns'' \<mapsto> Dir,
           ''.utcp-kb/wisdom/best_practices'' \<mapsto> Dir, ''.utcp-kb/wisdom/insights'' \<mapsto> Dir,
           ''.utcp-kb/wisdom'' \<mapsto> Dir)) [] []))
       = Inr (JObj [(''principles'', JArr (map principle_json (utcp_principles ''t''))),
                    (''patterns'', JArr []), (''best_practices'', JArr []), (''insights'', JArr [])])"
proof -
  let ?fs = "Map.empty(''.utcp-kb/wisdom/principles'' \<mapsto> Dir, ''.utcp-kb/wisdom/patterns'' \<mapsto> Dir,
           ''.utcp-kb/wisdom/best_practices'' \<mapsto> Dir, ''.utcp-kb/wisdom/insights'' \<mapsto> Dir,
           ''.utcp-kb/wisdom'' \<mapsto> Dir)"
  have a: "map pr_name (extract_principles ''t''
      [\<lparr>con_name = ''Design Pattern'', con_type = ''term'', con_source_repo = ''r1'',
         con_source_file = ''a.md'', con_context = ''T'', con_description = ''S'',
         con_tags = [''term''], con_timestamp = ''t''\<rparr>,
       \<lparr>con_name = ''Client'', con_type = ''term'', con_source_repo = ''r1'',
         con_source_file = ''a.md'', con_context = ''T'', con_description = ''S'',
         con_tags = [''term''], con_timestamp = ''t''\<rparr>] [])
     = [''Design Pattern'', ''Universal Tool Calling'', ''Direct Tool Access'']"
    by code_simp
  have b: "fst (extract_wisdom ''t'' ?fs [] []) = None"
    by code_simp
  then have c: "extract_wisdom ''t'' ?fs [] [] = (None, snd (extract_wisdom ''t'' ?fs [] []))"
    by (simp add: prod_eq_iff)
  note t = seed_principles_always_appended
    [of "''t''" "[]" "[]" ?fs "snd (extract_wisdom ''t'' ?fs [] [])" length]
  have d: "get_wisdom (snd (extract_wisdom ''t'' ?fs [] []))
       = Inr (JObj [(''principles'', JArr (map principle_json (utcp_principles ''t''))),
                    (''patterns'', JArr []), (''best_practices'', JArr []), (''insights'', JArr [])])"
    using t c
    by (simp add: extract_principles_def extract_patterns_def extract_best_practices_def
        extract_insights_def)
  have e: "map pr_name (extract_principles ''t'' [] []) = [''Universal Tool Calling'', ''Direct Tool Access'']"
    using t by simp
  from a e b d show ?thesis by blast
qed

text \<open>
  As stated for every principle extraction the claim fails on the basic processor, which
  writes the same principles file: from the empty concept collection it produces no
  principle at all.
\<close>

theorem basic_principles_no_seed_counterexample:
  "extract_wisdom_basic_principles length ''t'' [] = []"
  by (simp add: extract_wisdom_basic_principles_def first_seen_def)

section \<open>Properties of content extraction and the builder loops\<close>

lemma process_files_skip_errors:
  "process_files nlp now repo_name (filter (\<lambda>e. \<not> has_error e) es) acc
     = process_files nlp now repo_name es acc"
proof (induction es arbitrary: acc)
  case Nil
  then show ?case by simp
next
  case (Cons e es)
  then show ?case
    by (cases e; cases acc) (simp_all add: has_error_def)
qed

lemma process_files_only_errors:
  "\<forall>e \<in> set es. has_error e \<Longrightarrow> process_files nlp now repo_name es acc = acc"
proof (induction es arbitrary: acc)
  case Nil
  then show ?case by simp
next
  case (Cons e es)
  then show ?case
    by (cases e; cases acc) (simp_all add: has_error_def)
qed

lemma process_files_basic_skip_errors:
  "process_files_basic now repo_name (filter (\<lambda>e. \<not> has_error_basic e) es) acc
     = process_files_basic now repo_name es acc"
proof (induction es arbitrary: acc)
  case Nil
  then show ?case by simp
next
  case (Cons e es)
  then show ?case
    by (cases e; cases acc) (simp_all add: has_error_basic_def)
qed

lemma process_files_basic_only_errors:
  "\<forall>e \<in> set es. has_error_basic e \<Longrightarrow> process_files_basic now repo_name es acc = acc"
proof (induction es arbitrary: acc)
  case Nil
  then show ?case by simp
next
  case (Cons e es)
  then show ?case
    by (cases e; cases acc) (simp_all add: has_error_basic_def)
qed

text \<open>
  Claim C5. \<open>extract_content\<close> returns an error marker exactly when reading or analysing
  the file raises, with the path, the text of the exception and the time, and a facts
  record otherwise. Both builder loops give the same concepts and relationships with and
  without the error markers in the batch, and a batch of error markers alone gives
  nothing.
\<close>

theorem extraction_failures_are_markers_and_skipped:
  "(has_error (extract_content read_file analyse now file_path)
      \<longleftrightarrow> (case read_file file_path of Inl e \<Rightarrow> True | Inr content \<Rightarrow> isl (analyse file_path content)))
   \<and> (read_file file_path = Inl e \<longrightarrow>
        extract_content read_file analyse now file_path = ErrorMarker file_path e now)
   \<and> (read_file file_path = Inr content \<and> analyse file_path content = Inl e \<longrightarrow>
        extract_content read_file analyse now file_path = ErrorMarker file_path e now)
   \<and> process_extraction nlp now data
        = process_extraction nlp now
            (data\<lparr>ed_extractions := filter (\<lambda>x. \<not> has_error x) (ed_extractions data)\<rparr>)
   \<and> ((\<forall>x \<in> set (ed_extractions data). has_error x) \<longrightarrow> process_extraction nlp now data = ([], []))
   \<and> process_extraction_basic now bdata
        = process_extraction_basic now
            (bdata\<lparr>ed_extractions := filter (\<lambda>x. \<not> has_error_basic x) (ed_extractions bdata)\<rparr>)
   \<and> ((\<forall>x \<in> set (ed_extractions bdata). has_error_basic x) \<longrightarrow>
        process_extraction_basic now bdata = ([], []))"
proof -
  have 1: "has_error (extract_content read_file analyse now file_path)
      \<longleftrightarrow> (case read_file file_path of Inl e \<Rightarrow> True | Inr content \<Rightarrow> isl (analyse file_path content))"
    by (auto simp: extract_content_def has_error_def split: sum.splits)
  have 2: "read_file file_path = Inl e \<longrightarrow>
        extract_content read_file analyse now file_path = ErrorMarker file_path e now"
    by (simp add: extract_content_def)
  have 3: "read_file file_path = Inr content \<and> analyse file_path content = Inl e \<longrightarrow>
        extract_content read_file analyse now file_path = ErrorMarker file_path e now"
    by (simp add: extract_content_def)
  have 4: "process_extraction nlp now data
        = process_extraction nlp now
            (data\<lparr>ed_extractions := filter (\<lambda>x. \<not> has_error x) (ed_extractions data)\<rparr>)"
    by (simp add: process_extraction_def process_files_skip_errors)
  have 5: "(\<forall>x \<in> set (ed_extractions data). has_error x) \<longrightarrow> process_extraction nlp now data = ([], [])"
    by (simp add: process_extraction_def process_files_only_errors)
  have 6: "process_extraction_basic now bdata
        = process_extraction_basic now
            (bdata\<lparr>ed_extractions := filter (\<lambda>x. \<not> has_error_basic x) (ed_extractions bdata)\<rparr>)"
    by (simp add: process_extraction_basic_def process_files_basic_skip_errors)
  have 7: "(\<forall>x \<in> set (ed_extractions bdata). has_error_basic x) \<longrightarrow>
        process_extraction_basic now bdata = ([], [])"
    by (simp add: process_extraction_basic_def process_files_basic_only_errors)
  from 1 2 3 4 5 6 7 show ?thesis by blast
qed

theorem extraction_failures_are_markers_and_skipped_witness:
  "extract_content (\<lambda>p. Inl ''Permission denied'') (\<lambda>p c. Inl ''unused'') ''t'' ''bad.md''
     = ErrorMarker ''bad.md'' ''Permission denied'' ''t''
   \<and> extract_content (\<lambda>p. Inr ''MUST text'') (\<lambda>p c. Inl ''list index out of range'') ''t'' ''spec.md''
     = ErrorMarker ''spec.md'' ''list index out of range'' ''t''
   \<and> has_error (extract_content (\<lambda>p. Inr ''MUST text'') (\<lambda>p c. Inl ''list index out of range'') ''t'' ''spec.md'')
   \<and> process_extraction None ''t''
        \<lparr>ed_repository = ''repo'', ed_commit_hash = ''abc'', ed_commit_date = ''0'',
         ed_file_count = 1, ed_extractions = [ErrorMarker ''bad.md'' ''Permission denied'' ''t''],
         ed_timestamp = ''t''\<rparr> = ([], [])
   \<and> process_extraction_basic ''t''
        \<lparr>ed_repository = ''repo'', ed_commit_hash = ''abc'', ed_commit_date = ''0'',
         ed_file_count = 1, ed_extractions = [ErrorMarkerB ''bad.md'' ''Permission denied'' ''t''],
         ed_timestamp = ''t''\<rparr> = ([], [])"
  using extraction_failures_are_markers_and_skipped
    [where read_file = "\<lambda>p. Inl ''Permission denied''" and analyse = "\<lambda>p c. Inl ''unused''"
       and now = "''t''" and file_path = "''bad.md''" and e = "''Permission denied''"
       and nlp = None
       and data = "\<lparr>ed_repository = ''repo'', ed_commit_hash = ''abc'', ed_commit_date = ''0'',
         ed_file_count = 1, ed_extractions = [ErrorMarker ''bad.md'' ''Permission denied'' ''t''],
         ed_timestamp = ''t''\<rparr>"
       and bdata = "\<lparr>ed_repository = ''repo'', ed_commit_hash = ''abc'', ed_commit_date = ''0'',
         ed_file_count = 1, ed_extractions = [ErrorMarkerB ''bad.md'' ''Permission denied'' ''t''],
         ed_timestamp = ''t''\<rparr>"]
    extraction_failures_are_markers_and_skipped
    [where read_file = "\<lambda>p. Inr ''MUST text''" and analyse = "\<lambda>p c. Inl ''list index out of range''"
       and now = "''t''" and file_path = "''spec.md''" and e = "''list index out of range''"
       and content = "''MUST text''"]
  by (simp add: has_error_def has_error_basic_def)

section \<open>Properties of the knowledge base accessors\<close>

text \<open>
  Claim C6. When the relationships file does not exist, loading it gives the empty list:
  \<open>get_relationships\<close> on a new instance, and on any instance that has not loaded its
  relationships, returns the empty list and stores it, and on no instance does it raise.
\<close>

theorem missing_relationships_file_gives_empty:
  "(fs (path_join (kb_path kb) subpath) = None \<longrightarrow> load_json fs kb subpath = Inr (JArr []))
   \<and> (fs (path_join path ''processed-knowledge/all_relationships.json'') = None \<longrightarrow>
        get_relationships fs (new_knowledge_base fs path)
          = (Inr (JArr []), (new_knowledge_base fs path)\<lparr>kb_relationships := JArr []\<rparr>))
   \<and> (fs (path_join (kb_path kb) ''processed-knowledge/all_relationships.json'') = None
        \<and> kb_relationships kb = JNull \<longrightarrow>
        get_relationships fs kb = (Inr (JArr []), kb\<lparr>kb_relationships := JArr []\<rparr>))
   \<and> (fs (path_join (kb_path kb) ''processed-knowledge/all_relationships.json'') = None \<longrightarrow>
        \<not> isl (fst (get_relationships fs kb)))"
  by (simp add: load_json_def get_relationships_def new_knowledge_base_def)

theorem missing_relationships_file_gives_empty_witness:
  "Map.empty (path_join ''.utcp-kb'' ''processed-knowledge/all_relationships.json'') = None
   \<and> load_json Map.empty (new_knowledge_base Map.empty ''.utcp-kb'')
        ''processed-knowledge/all_relationships.json'' = Inr (JArr [])
   \<and> fst (get_relationships Map.empty (new_knowledge_base Map.empty ''.utcp-kb'')) = Inr (JArr [])
   \<and> kb_relationships (new_knowledge_base Map.empty ''.utcp-kb'') = JNull
   \<and> \<not> isl (fst (get_relationships Map.empty (new_knowledge_base Map.empty ''.utcp-kb'')))"
  using missing_relationships_file_gives_empty
    [of Map.empty "new_knowledge_base Map.empty ''.utcp-kb''"
      "''processed-knowledge/all_relationships.json''" "''.utcp-kb''"]
  by (simp add: new_knowledge_base_def)

text \<open>
  Claim C9. Once an accessor has returned a value other than \<open>None\<close>, as every
  collection is, every later call on the resulting instance returns the same value and
  leaves the instance as it is, whatever the files hold by then; a new instance reads the
  file.
\<close>

theorem accessors_return_cached_value:
  "(get_concepts fs kb = (Inr v, kb') \<and> v \<noteq> JNull \<longrightarrow> get_concepts fs' kb' = (Inr v, kb'))
   \<and> (get_relationships fs kb = (Inr v, kb') \<and> v \<noteq> JNull \<longrightarrow>
        get_relationships fs' kb' = (Inr v, kb'))
   \<and> (get_principles fs kb = (Inr v, kb') \<and> v \<noteq> JNull \<longrightarrow> get_principles fs' kb' = (Inr v, kb'))
   \<and> (get_patterns fs kb = (Inr v, kb') \<and> v \<noteq> JNull \<longrightarrow> get_patterns fs' kb' = (Inr v, kb'))
   \<and> fst (get_concepts fs' (new_knowledge_base fs' path))
        = load_json fs' (new_knowledge_base fs' path) ''processed-knowledge/all_concepts.json''"
proof -
  have 1: "get_concepts fs kb = (Inr v, kb') \<and> v \<noteq> JNull \<longrightarrow> get_concepts fs' kb' = (Inr v, kb')"
    by (auto simp: get_concepts_def split: if_splits sum.splits)
  have 2: "get_relationships fs kb = (Inr v, kb') \<and> v \<noteq> JNull \<longrightarrow>
        get_relationships fs' kb' = (Inr v, kb')"
    by (auto simp: get_relationships_def split: if_splits sum.splits)
  have 3: "get_principles fs kb = (Inr v, kb') \<and> v \<noteq> JNull \<longrightarrow> get_principles fs' kb' = (Inr v, kb')"
    by (auto simp: get_principles_def split: if_splits sum.splits)
  have 4: "get_patterns fs kb = (Inr v, kb') \<and> v \<noteq> JNull \<longrightarrow> get_patterns fs' kb' = (Inr v, kb')"
    by (auto simp: get_patterns_def split: if_splits sum.splits)
  have 5: "fst (get_concepts fs' (new_knowledge_base fs' path))
        = load_json fs' (new_knowledge_base fs' path) ''processed-knowledge/all_concepts.json''"
    by (simp add: get_concepts_def new_knowledge_base_def split: sum.splits)
  from 1 2 3 4 5 show ?thesis by blast
qed

theorem accessors_return_cached_value_witness:
  "get_concepts
      (Map.empty(''.utcp-kb/processed-knowledge/all_concepts.json''
             \<mapsto> File (Inr (JArr [JObj [(''name'', JStr ''UTCP'')]]))))
      (new_knowledge_base Map.empty ''.utcp-kb'')
     = (Inr (JArr [JObj [(''name'', JStr ''UTCP'')]]),
        (new_knowledge_base Map.empty ''.utcp-kb'')\<lparr>kb_concepts := JArr [JObj [(''name'', JStr ''UTCP'')]]\<rparr>)
   \<and> JArr [JObj [(''name'', JStr ''UTCP'')]] \<noteq> JNull
   \<and> get_concepts Map.empty
        ((new_knowledge_base Map.empty ''.utcp-kb'')\<lparr>kb_concepts := JArr [JObj [(''name'', JStr ''UTCP'')]]\<rparr>)
     = (Inr (JArr [JObj [(''name'', JStr ''UTCP'')]]),
        (new_knowledge_base Map.empty ''.utcp-kb'')\<lparr>kb_concepts := JArr [JObj [(''name'', JStr ''UTCP'')]]\<rparr>)
   \<and> get_relationships Map.empty (new_knowledge_base Map.empty ''.utcp-kb'')
     = (Inr (JArr []), (new_knowledge_base Map.empty ''.utcp-kb'')\<lparr>kb_relationships := JArr []\<rparr>)
   \<and> JArr [] \<noteq> JNull
   \<and> get_relationships
        (Map.empty(''.utcp-kb/processed-knowledge/all_relationships.json''
             \<mapsto> File (Inr (JArr [JObj [(''type'', JStr ''contains'')]]))))
        ((new_knowledge_base Map.empty ''.utcp-kb'')\<lparr>kb_relationships := JArr []\<rparr>)
     = (Inr (JArr []), (new_knowledge_base Map.empty ''.utcp-kb'')\<lparr>kb_relationships := JArr []\<rparr>)
   \<and> get_principles
        (Map.empty(''.utcp-kb/wisdom/principles/all_principles.json'' \<mapsto> File (Inr (JArr [JStr ''p'']))))
        (new_knowledge_base Map.empty ''.utcp-kb'')
     = (Inr (JArr [JStr ''p'']), (new_knowledge_base Map.empty ''.utcp-kb'')\<lparr>kb_principles := JArr [JStr ''p'']\<rparr>)
   \<and> JArr [JStr ''p''] \<noteq> JNull
   \<and> get_principles Map.empty
        ((new_knowledge_base Map.empty ''.utcp-kb'')\<lparr>kb_principles := JArr [JStr ''p'']\<rparr>)
     = (Inr (JArr [JStr ''p'']), (new_knowledge_base Map.empty ''.utcp-kb'')\<lparr>kb_principles := JArr [JStr ''p'']\<rparr>)
   \<and> get_patterns
        (Map.empty(''.utcp-kb/wisdom/patterns/all_patterns.json'' \<mapsto> File (Inr (JArr [JStr ''q'']))))
        (new_knowledge_base Map.empty ''.utcp-kb'')
     = (Inr (JArr [JStr ''q'']), (new_knowledge_base Map.empty ''.utcp-kb'')\<lparr>kb_patterns := JArr [JStr ''q'']\<rparr>)
   \<and> JArr [JStr ''q''] \<noteq> JNull
   \<and> get_patterns Map.empty
        ((new_knowledge_base Map.empty ''.utcp-kb'')\<lparr>kb_patterns := JArr [JStr ''q'']\<rparr>)
     = (Inr (JArr [JStr ''q'']), (new_knowledge_base Map.empty ''.utcp-kb'')\<lparr>kb_patterns := JArr [JStr ''q'']\<rparr>)"
proof -
  let ?kb = "new_knowledge_base Map.empty ''.utcp-kb''"
  let ?c = "JArr [JObj [(''name'', JStr ''UTCP'')]]"
  let ?fc = "Map.empty(''.utcp-kb/processed-knowledge/all_concepts.json'' \<mapsto> File (Inr ?c))"
  let ?fr = "Map.empty(''.utcp-kb/processed-knowledge/all_relationships.json''
             \<mapsto> File (Inr (JArr [JObj [(''type'', JStr ''contains'')]])))"
  let ?fp = "Map.empty(''.utcp-kb/wisdom/principles/all_principles.json'' \<mapsto> File (Inr (JArr [JStr ''p''])))"
  let ?fq = "Map.empty(''.utcp-kb/wisdom/patterns/all_patterns.json'' \<mapsto> File (Inr (JArr [JStr ''q''])))"
  have a: "get_concepts ?fc ?kb = (Inr ?c, ?kb\<lparr>kb_concepts := ?c\<rparr>)"
    by (simp add: get_concepts_def load_json_def open_load_def path_join_def new_knowledge_base_def
      load_indexes_def)
  have b: "get_relationships Map.empty ?kb = (Inr (JArr []), ?kb\<lparr>kb_relationships := JArr []\<rparr>)"
    by (simp add: get_relationships_def load_json_def new_knowledge_base_def)
  have c: "get_principles ?fp ?kb = (Inr (JArr [JStr ''p'']), ?kb\<lparr>kb_principles := JArr [JStr ''p'']\<rparr>)"
    by (simp add: get_principles_def load_json_def open_load_def path_join_def new_knowledge_base_def
      load_indexes_def)
  have d: "get_patterns ?fq ?kb = (Inr (JArr [JStr ''q'']), ?kb\<lparr>kb_patterns := JArr [JStr ''q'']\<rparr>)"
    by (simp add: get_patterns_def load_json_def open_load_def path_join_def new_knowledge_base_def
      load_indexes_def)
  have n: "?c \<noteq> JNull" "JArr [] \<noteq> JNull" "JArr [JStr ''p''] \<noteq> JNull" "JArr [JStr ''q''] \<noteq> JNull"
    by simp_all
  note t1 = accessors_return_cached_value
    [of ?fc ?kb ?c "?kb\<lparr>kb_concepts := ?c\<rparr>" Map.empty]
  note t2 = accessors_return_cached_value
    [of Map.empty ?kb "JArr []" "?kb\<lparr>kb_relationships := JArr []\<rparr>" ?fr]
  note t3 = accessors_return_cached_value
    [of ?fp ?kb "JArr [JStr ''p'']" "?kb\<lparr>kb_principles := JArr [JStr ''p'']\<rparr>" Map.empty]
  note t4 = accessors_return_cached_value
    [of ?fq ?kb "JArr [JStr ''q'']" "?kb\<lparr>kb_patterns := JArr [JStr ''q'']\<rparr>" Map.empty]
  have a': "get_concepts Map.empty (?kb\<lparr>kb_concepts := ?c\<rparr>) = (Inr ?c, ?kb\<lparr>kb_concepts := ?c\<rparr>)"
    using t1 a n by blast
  have b': "get_relationships ?fr (?kb\<lparr>kb_relationships := JArr []\<rparr>)
      = (Inr (JArr []), ?kb\<lparr>kb_relationships := JArr []\<rparr>)"
    using t2 b n by blast
  have c': "get_principles Map.empty (?kb\<lparr>kb_principles := JArr [JStr ''p'']\<rparr>)
      = (Inr (JArr [JStr ''p'']), ?kb\<lparr>kb_principles := JArr [JStr ''p'']\<rparr>)"
    using t3 c n by blast
  have d': "get_patterns Map.empty (?kb\<lparr>kb_patterns := JArr [JStr ''q'']\<rparr>)
      = (Inr (JArr [JStr ''q'']), ?kb\<lparr>kb_patterns := JArr [JStr ''q'']\<rparr>)"
    using t4 d n by blast
  from a n(1) a' b n(2) b' c n(3) c' d n(4) d' show ?thesis by blast
qed

text \<open>
  As stated for every first call the claim fails: the attribute is tested with
  \<open>is None\<close>, so a document that holds \<open>null\<close>, and a load that raises, leave
  nothing cached, and the next call on the same instance reads the file again and returns
  what it holds then.
\<close>

theorem uncached_load_is_read_again_counterexample:
  "fst (get_concepts
          (Map.empty(''.utcp-kb/processed-knowledge/all_concepts.json'' \<mapsto> File (Inr JNull)))
          (new_knowledge_base Map.empty ''.utcp-kb'')) = Inr JNull
   \<and> fst (get_concepts
          (Map.empty(''.utcp-kb/processed-knowledge/all_concepts.json''
             \<mapsto> File (Inr (JArr [JObj [(''name'', JStr ''UTCP'')]]))))
          (snd (get_concepts
             (Map.empty(''.utcp-kb/processed-knowledge/all_concepts.json'' \<mapsto> File (Inr JNull)))
             (new_knowledge_base Map.empty ''.utcp-kb''))))
       = Inr (JArr [JObj [(''name'', JStr ''UTCP'')]])
   \<and> fst (get_concepts
          (Map.empty(''.utcp-kb/processed-knowledge/all_concepts.json''
             \<mapsto> File (Inl (ValueError ''Expecting value''))))
          (new_knowledge_base Map.empty ''.utcp-kb'')) = Inl (ValueError ''Expecting value'')
   \<and> fst (get_concepts
          (Map.empty(''.utcp-kb/processed-knowledge/all_concepts.json''
             \<mapsto> File (Inr (JArr [JObj [(''name'', JStr ''UTCP'')]]))))
          (snd (get_concepts
             (Map.empty(''.utcp-kb/processed-knowledge/all_concepts.json''
                \<mapsto> File (Inl (ValueError ''Expecting value''))))
             (new_knowledge_base Map.empty ''.utcp-kb''))))
       = Inr (JArr [JObj [(''name'', JStr ''UTCP'')]])"
  by (simp add: get_concepts_def load_json_def open_load_def path_join_def new_knowledge_base_def
      load_indexes_def)

section \<open>Properties of the concept lookup\<close>

lemma get_concepts_cache:
  "get_concepts fs kb = (Inr v, kb') \<Longrightarrow> kb_concepts kb' = v"
  by (auto simp: get_concepts_def split: if_splits sum.splits)

text \<open>
  Claim C10. When the concepts load as a list: an identifier that \<open>int\<close> reads as \<open>i\<close>
  with \<open>0 \<le> i < len(concepts)\<close> is answered with the concept at position \<open>i\<close> and
  status 200, any other integer with the error Concept not found and status 404, and an
  identifier that \<open>int\<close> refuses with the error Invalid concept ID and status 400. The
  instance afterwards holds the same list, and is unchanged if it had loaded it before.
\<close>

theorem concept_lookup_by_id:
  assumes "get_concepts fs kb = (Inr (JArr concepts), kb')"
  shows "(py_int concept_id = Some i \<and> 0 \<le> i \<and> i < int (length concepts) \<longrightarrow>
            get_concept_by_id fs kb concept_id = ((concepts ! nat i, 200), kb'))
   \<and> (py_int concept_id = Some i \<and> \<not> (0 \<le> i \<and> i < int (length concepts)) \<longrightarrow>
            get_concept_by_id fs kb concept_id = ((error_body ''Concept not found'', 404), kb'))
   \<and> (py_int concept_id = None \<longrightarrow>
            get_concept_by_id fs kb concept_id = ((error_body ''Invalid concept ID'', 400), kb'))
   \<and> snd (get_concept_by_id fs kb concept_id) = kb'
   \<and> kb_concepts kb' = JArr concepts
   \<and> (kb_concepts kb \<noteq> JNull \<longrightarrow> kb' = kb)"
proof -
  have 1: "py_int concept_id = Some i \<and> 0 \<le> i \<and> i < int (length concepts) \<longrightarrow>
            get_concept_by_id fs kb concept_id = ((concepts ! nat i, 200), kb')"
    using assms by (simp add: get_concept_by_id_def py_len_def py_item_def)
  have 2: "py_int concept_id = Some i \<and> \<not> (0 \<le> i \<and> i < int (length concepts)) \<longrightarrow>
            get_concept_by_id fs kb concept_id = ((error_body ''Concept not found'', 404), kb')"
    using assms by (auto simp: get_concept_by_id_def py_len_def)
  have 3: "py_int concept_id = None \<longrightarrow>
            get_concept_by_id fs kb concept_id = ((error_body ''Invalid concept ID'', 400), kb')"
    using assms by (simp add: get_concept_by_id_def handle_exception_def)
  have 4: "snd (get_concept_by_id fs kb concept_id) = kb'"
    using assms
    by (simp add: get_concept_by_id_def py_len_def py_item_def split: option.splits)
  have 5: "kb_concepts kb' = JArr concepts"
    using assms by (rule get_concepts_cache)
  have 6: "kb_concepts kb \<noteq> JNull \<longrightarrow> kb' = kb"
    using assms by (auto simp: get_concepts_def)
  from 1 2 3 4 5 6 show ?thesis by blast
qed

theorem concept_lookup_by_id_witness:
  "get_concepts
      (Map.empty(''.utcp-kb/processed-knowledge/all_concepts.json''
         \<mapsto> File (Inr (JArr [JObj [(''name'', JStr ''UTCP'')], JObj [(''name'', JStr ''API'')]]))))
      (new_knowledge_base Map.empty ''.utcp-kb'')
     = (Inr (JArr [JObj [(''name'', JStr ''UTCP'')], JObj [(''name'', JStr ''API'')]]),
        (new_knowledge_base Map.empty ''.utcp-kb'')
          \<lparr>kb_concepts := JArr [JObj [(''name'', JStr ''UTCP'')], JObj [(''name'', JStr ''API'')]]\<rparr>)
   \<and> py_int ''1'' = Some 1
   \<and> fst (get_concept_by_id
        (Map.empty(''.utcp-kb/processed-knowledge/all_concepts.json''
           \<mapsto> File (Inr (JArr [JObj [(''name'', JStr ''UTCP'')], JObj [(''name'', JStr ''API'')]]))))
        (new_knowledge_base Map.empty ''.utcp-kb'') ''1'')
       = (JObj [(''name'', JStr ''API'')], 200)
   \<and> py_int ''-1'' = Some (- 1)
   \<and> fst (get_concept_by_id
        (Map.empty(''.utcp-kb/processed-knowledge/all_concepts.json''
           \<mapsto> File (Inr (JArr [JObj [(''name'', JStr ''UTCP'')], JObj [(''name'', JStr ''API'')]]))))
        (new_knowledge_base Map.empty ''.utcp-kb'') ''-1'')
       = (JObj [(''error'', JStr ''Concept not found'')], 404)
   \<and> py_int ''2'' = Some 2
   \<and> fst (get_concept_by_id
        (Map.empty(''.utcp-kb/processed-knowledge/all_concepts.json''
           \<mapsto> File (Inr (JArr [JObj [(''name'', JStr ''UTCP'')], JObj [(''name'', JStr ''API'')]]))))
        (new_knowledge_base Map.empty ''.utcp-kb'') ''2'')
       = (JObj [(''error'', JStr ''Concept not found'')], 404)
   \<and> py_int ''abc'' = None
   \<and> fst (get_concept_by_id
        (Map.empty(''.utcp-kb/processed-knowledge/all_concepts.json''
           \<mapsto> File (Inr (JArr [JObj [(''name'', JStr ''UTCP'')], JObj [(''name'', JStr ''API'')]]))))
        (new_knowledge_base Map.empty ''.utcp-kb'') ''abc'')
       = (JObj [(''error'', JStr ''Invalid concept ID'')], 400)
   \<and> py_int [CHR 0x1C, CHR ''1''] = None
   \<and> fst (get_concept_by_id
        (Map.empty(''.utcp-kb/processed-knowledge/all_concepts.json''
           \<mapsto> File (Inr (JArr [JObj [(''name'', JStr ''UTCP'')], JObj [(''name'', JStr ''API'')]]))))
        (new_knowledge_base Map.empty ''.utcp-kb'') [CHR 0x1C, CHR ''1''])
       = (JObj [(''error'', JStr ''Invalid concept ID'')], 400)"
proof -
  let ?cs = "[JObj [(''name'', JStr ''UTCP'')], JObj [(''name'', JStr ''API'')]]"
  let ?fs = "Map.empty(''.utcp-kb/processed-knowledge/all_concepts.json'' \<mapsto> File (Inr (JArr ?cs)))"
  let ?kb = "new_knowledge_base Map.empty ''.utcp-kb''"
  have g: "get_concepts ?fs ?kb = (Inr (JArr ?cs), ?kb\<lparr>kb_concepts := JArr ?cs\<rparr>)"
    by (simp add: get_concepts_def load_json_def open_load_def path_join_def new_knowledge_base_def
      load_indexes_def)
  have p1: "py_int ''1'' = Some 1" by code_simp
  have p2: "py_int ''-1'' = Some (- 1)" by code_simp
  have p3: "py_int ''2'' = Some 2" by code_simp
  have p4: "py_int ''abc'' = None" by code_simp
  have r1: "fst (get_concept_by_id ?fs ?kb ''1'') = (JObj [(''name'', JStr ''API'')], 200)"
    using concept_lookup_by_id [OF g, of "''1''" 1] p1 by simp
  have r2: "fst (get_concept_by_id ?fs ?kb ''-1'') = (JObj [(''error'', JStr ''Concept not found'')], 404)"
    using concept_lookup_by_id [OF g, of "''-1''" "- 1"] p2 by (simp add: error_body_def)
  have r3: "fst (get_concept_by_id ?fs ?kb ''2'') = (JObj [(''error'', JStr ''Concept not found'')], 404)"
    using concept_lookup_by_id [OF g, of "''2''" 2] p3 by (simp add: error_body_def)
  have r4: "fst (get_concept_by_id ?fs ?kb ''abc'') = (JObj [(''error'', JStr ''Invalid concept ID'')], 400)"
    using concept_lookup_by_id [OF g, of "''abc''"] p4 by (simp add: error_body_def)
  have p5: "py_int [CHR 0x1C, CHR ''1''] = None" by code_simp
  have r5: "fst (get_concept_by_id ?fs ?kb [CHR 0x1C, CHR ''1''])
      = (JObj [(''error'', JStr ''Invalid concept ID'')], 400)"
    using concept_lookup_by_id [OF g, of "[CHR 0x1C, CHR ''1'']"] p5 by (simp add: error_body_def)
  from g p1 r1 p2 r2 p3 r3 p4 r4 p5 r5 show ?thesis by blast
qed

text \<open>
  As stated for every state of the files the claim fails: when loading the concepts raises,
  the handler answers before it looks at the identifier. An unreadable concepts file gives
  status 500 for an identifier that is not an integer, and a malformed one, whose
  exception is a \<open>ValueError\<close>, gives status 400 for an identifier that is one.
\<close>

theorem unloadable_concepts_counterexample:
  "py_int ''abc'' = None
   \<and> fst (get_concept_by_id
        (Map.empty(''.utcp-kb/processed-knowledge/all_concepts.json''
           \<mapsto> File (Inl (OSError (errno_text ''13'' ''Permission denied''
                  ''.utcp-kb/processed-knowledge/all_concepts.json'')))))
        (new_knowledge_base Map.empty ''.utcp-kb'') ''abc'')
       = (JObj [(''error'', JStr (errno_text ''13'' ''Permission denied''
                  ''.utcp-kb/processed-knowledge/all_concepts.json''))], 500)
   \<and> py_int ''0'' = Some 0
   \<and> fst (get_concept_by_id
        (Map.empty(''.utcp-kb/processed-knowledge/all_concepts.json''
           \<mapsto> File (Inl (ValueError ''Expecting value: line 1 column 1 (char 0)''))))
        (new_knowledge_base Map.empty ''.utcp-kb'') ''0'')
       = (JObj [(''error'', JStr ''Invalid concept ID'')], 400)"
proof -
  have a: "py_int ''abc'' = None" by code_simp
  have b: "py_int ''0'' = Some 0" by code_simp
  have c: "fst (get_concept_by_id
        (Map.empty(''.utcp-kb/processed-knowledge/all_concepts.json''
           \<mapsto> File (Inl (OSError (errno_text ''13'' ''Permission denied''
                  ''.utcp-kb/processed-knowledge/all_concepts.json'')))))
        (new_knowledge_base Map.empty ''.utcp-kb'') ''abc'')
       = (JObj [(''error'', JStr (errno_text ''13'' ''Permission denied''
                  ''.utcp-kb/processed-knowledge/all_concepts.json''))], 500)"
    by (simp add: get_concept_by_id_def get_concepts_def load_json_def open_load_def path_join_def
        new_knowledge_base_def load_indexes_def handle_exception_def exception_str_def
        error_body_def)
  have d: "fst (get_concept_by_id
        (Map.empty(''.utcp-kb/processed-knowledge/all_concepts.json''
           \<mapsto> File (Inl (ValueError ''Expecting value: line 1 column 1 (char 0)''))))
        (new_knowledge_base Map.empty ''.utcp-kb'') ''0'')
       = (JObj [(''error'', JStr ''Invalid concept ID'')], 400)"
    by (simp add: get_concept_by_id_def get_concepts_def load_json_def open_load_def path_join_def
        new_knowledge_base_def load_indexes_def handle_exception_def exception_str_def
        error_body_def)
  from a c b d show ?thesis by blast
qed

section \<open>Properties of the inverted index\<close>

lemma posting_index_words_keep:
  "j \<in> set (posting idx w) \<Longrightarrow> j \<in> set (posting (index_words idx i ws) w)"
proof (induction ws arbitrary: idx)
  case Nil
  then show ?case by simp
next
  case (Cons a ws)
  have "j \<in> set (posting (if length a > 2 then idx(a \<mapsto> posting idx a @ [i]) else idx) w)"
    using Cons.prems by (auto simp: posting_def split: option.splits)
  then show ?case using Cons.IH by simp
qed

lemma posting_index_words_new:
  "w \<in> set ws \<Longrightarrow> length w > 2 \<Longrightarrow> i \<in> set (posting (index_words idx i ws) w)"
proof (induction ws arbitrary: idx)
  case Nil
  then show ?case by simp
next
  case (Cons a ws)
  show ?case
  proof (cases "a = w")
    case True
    have "i \<in> set (posting (idx(w \<mapsto> posting idx w @ [i])) w)"
      by (simp add: posting_def)
    then have "i \<in> set (posting (index_words (idx(w \<mapsto> posting idx w @ [i])) i ws) w)"
      by (rule posting_index_words_keep)
    with True Cons.prems show ?thesis by simp
  next
    case False
    with Cons.prems have "w \<in> set ws" by simp
    then show ?thesis using Cons.IH Cons.prems(2) by simp
  qed
qed

lemma posting_index_texts_keep:
  "j \<in> set (posting idx w) \<Longrightarrow> j \<in> set (posting (index_texts idx n ts) w)"
proof (induction ts arbitrary: idx n)
  case Nil
  then show ?case by simp
next
  case (Cons t ts)
  then show ?case by (simp add: posting_index_words_keep)
qed

lemma posting_index_texts_new:
  "k < length ts \<Longrightarrow> w \<in> set (py_split (ts ! k)) \<Longrightarrow> length w > 2 \<Longrightarrow>
     n + k \<in> set (posting (index_texts idx n ts) w)"
proof (induction ts arbitrary: idx n k)
  case Nil
  then show ?case by simp
next
  case (Cons t ts)
  show ?case
  proof (cases k)
    case 0
    with Cons.prems have "n \<in> set (posting (index_words idx n (py_split t)) w)"
      by (simp add: posting_index_words_new)
    then have "n \<in> set (posting (index_texts (index_words idx n (py_split t)) (Suc n) ts) w)"
      by (rule posting_index_texts_keep)
    with 0 show ?thesis by simp
  next
    case (Suc m)
    with Cons.prems have "m < length ts" "w \<in> set (py_split (ts ! m))" by simp_all
    from Cons.IH [OF this Cons.prems(3), of "Suc n" "index_words idx n (py_split t)"] Suc
    show ?thesis by simp
  qed
qed

lemma posting_some: "i \<in> set (posting idx w) \<Longrightarrow> \<exists>ps. idx w = Some ps \<and> i \<in> set ps"
  by (cases "idx w") (simp_all add: posting_def)

lemma split_acc_space:
  "py_isspace c \<Longrightarrow> split_acc w (a @ c # b) = split_acc w a @ split_acc [] b"
  by (induction a arbitrary: w) simp_all

lemma py_split_join:
  "py_split (a @ CHR '' '' # b) = py_split a @ py_split b"
  using split_acc_space [of "CHR '' ''" "[]" a b]
  by (simp add: py_split_def py_isspace_def)

lemma py_lower_join: "py_lower (a @ CHR '' '' # b) = py_lower a @ CHR '' '' # py_lower b"
  by (simp add: py_lower_def lower_char_def)

lemma tokens_of_name_or_description:
  "set (py_split (py_lower (con_name c @ '' '' @ con_description c)))
     = set (py_split (py_lower (con_name c))) \<union> set (py_split (py_lower (con_description c)))"
  by (simp add: py_lower_join py_split_join)

text \<open>
  Claim C7. The searchable text of a concept is its name, a space and its description.
  For the concept at position \<open>i\<close>, every token of the lowered text that is longer than
  two characters is a key of the concept index, and \<open>i\<close> is in its posting list. By
  \<open>tokens_of_name_or_description\<close> these are the tokens of the lowered name and of the
  lowered description.
\<close>

theorem concept_tokens_are_indexed:
  assumes "i < length concepts"
    and "w \<in> set (py_split (py_lower (con_name (concepts ! i) @ '' '' @ con_description (concepts ! i))))"
    and "length w > 2"
  shows "\<exists>ps. fst (create_search_index concepts relationships) w = Some ps \<and> i \<in> set ps"
proof -
  have "w \<in> set (py_split (map concept_text concepts ! i))"
    using assms(1,2) by (simp add: concept_text_def py_lower_join)
  with assms(1,3) have "0 + i \<in> set (posting (index_texts Map.empty 0 (map concept_text concepts)) w)"
    by (intro posting_index_texts_new) simp_all
  then show ?thesis
    by (simp add: create_search_index_def posting_some)
qed

theorem concept_tokens_are_indexed_witness:
  "(1::nat) < length
      [\<lparr>con_name = ''UTCP'', con_type = ''term'', con_source_repo = ''r'', con_source_file = ''a.md'',
        con_context = ''T'', con_description = ''Universal Tool Calling Protocol'',
        con_tags = [''term''], con_timestamp = ''t''\<rparr>,
       \<lparr>con_name = ''API'', con_type = ''term'', con_source_repo = ''r'', con_source_file = ''a.md'',
        con_context = ''T'', con_description = ''An HTTP Protocol'',
        con_tags = [''term''], con_timestamp = ''t''\<rparr>]
   \<and> ''protocol'' \<in> set (py_split (py_lower (''API'' @ '' '' @ ''An HTTP Protocol'')))
   \<and> length ''protocol'' > 2
   \<and> (\<exists>ps. fst (create_search_index
        [\<lparr>con_name = ''UTCP'', con_type = ''term'', con_source_repo = ''r'', con_source_file = ''a.md'',
          con_context = ''T'', con_description = ''Universal Tool Calling Protocol'',
          con_tags = [''term''], con_timestamp = ''t''\<rparr>,
         \<lparr>con_name = ''API'', con_type = ''term'', con_source_repo = ''r'', con_source_file = ''a.md'',
          con_context = ''T'', con_description = ''An HTTP Protocol'',
          con_tags = [''term''], con_timestamp = ''t''\<rparr>] []) ''protocol'' = Some ps \<and> 1 \<in> set ps)"
proof -
  let ?cs = "[\<lparr>con_name = ''UTCP'', con_type = ''term'', con_source_repo = ''r'', con_source_file = ''a.md'',
        con_context = ''T'', con_description = ''Universal Tool Calling Protocol'',
        con_tags = [''term''], con_timestamp = ''t''\<rparr>,
       \<lparr>con_name = ''API'', con_type = ''term'', con_source_repo = ''r'', con_source_file = ''a.md'',
        con_context = ''T'', con_description = ''An HTTP Protocol'',
        con_tags = [''term''], con_timestamp = ''t''\<rparr>]"
  have a: "(1::nat) < length ?cs" by simp
  have b: "''protocol'' \<in> set (py_split (py_lower (''API'' @ '' '' @ ''An HTTP Protocol'')))"
    by code_simp
  then have b': "''protocol'' \<in> set (py_split (py_lower (con_name (?cs ! 1) @ '' '' @ con_description (?cs ! 1))))"
    by simp
  have c: "length ''protocol'' > 2" by simp
  from concept_tokens_are_indexed [OF a b' c, of "[]"] a b c show ?thesis by blast
qed

section \<open>Properties of key term extraction\<close>

lemma length_later_pairs:
  "2 * length (later_pairs mk xs) \<le> length xs * (length xs - 1)"
proof (induction xs)
  case Nil
  then show ?case by simp
next
  case (Cons x xs)
  have "length (filter (\<lambda>y. x \<noteq> y) xs) \<le> length xs"
    by (rule length_filter_le)
  with Cons show ?case
    by (cases xs) (simp_all add: algebra_simps)
qed

lemma later_pairs_at_most_190:
  assumes "length xs \<le> 20"
  shows "length (later_pairs mk xs) \<le> 190"
proof -
  have "length xs * (length xs - 1) \<le> 20 * 19"
    using assms by (intro mult_le_mono) simp_all
  with length_later_pairs [of mk xs] show ?thesis by simp
qed

lemma list_of_set_distinct: "distinct (list_of_set h xs)"
  by (simp add: list_of_set_def)

lemma filter_later_pairs_all:
  assumes "\<And>x y. P (mk x y)"
  shows "filter P (later_pairs mk xs) = later_pairs mk xs"
  using assms by (induction xs) simp_all

lemma filter_later_pairs_none:
  assumes "\<And>x y. \<not> P (mk x y)"
  shows "filter P (later_pairs mk xs) = []"
  using assms by (induction xs) simp_all

lemma co_occurrence_of_basic:
  "filter (\<lambda>r. rel_type r = ''co_occurrence'') (extract_relationships_basic now repo_name file_path key_terms)
     = later_pairs (co_occurrence_basic now repo_name file_path) key_terms"
proof -
  have "filter (\<lambda>r. rel_type r = ''co_occurrence'') (map (repo_contains_rel now repo_name file_path) key_terms) = []"
    by (induction key_terms) (simp_all add: repo_contains_rel_def)
  moreover have "filter (\<lambda>r. rel_type r = ''co_occurrence'') (later_pairs (co_occurrence_basic now repo_name file_path) key_terms)
      = later_pairs (co_occurrence_basic now repo_name file_path) key_terms"
    by (rule filter_later_pairs_all) (simp add: co_occurrence_basic_def)
  ultimately show ?thesis by (simp add: extract_relationships_basic_def)
qed

lemma co_occurrence_of_full:
  "filter (\<lambda>r. rel_type r = ''co_occurrence'')
      (extract_relationships_from_extraction now repo_name file_path content_type content info)
     = later_pairs (co_occurrence_rel now repo_name file_path) (info_key_terms info)"
proof -
  have a: "filter (\<lambda>r. rel_type r = ''co_occurrence'') (later_pairs (same_file_rel now repo_name file_path) fs) = []" for fs
    by (rule filter_later_pairs_none) (simp add: same_file_rel_def)
  have b: "filter (\<lambda>r. rel_type r = ''co_occurrence'') (cross_pairs (class_contains_rel now repo_name file_path) cs fs) = []" for cs fs
    by (simp add: cross_pairs_def filter_concat comp_def class_contains_rel_def filter_empty_conv)
  have c: "filter (\<lambda>r. rel_type r = ''co_occurrence'') (later_pairs (co_occurrence_rel now repo_name file_path) ts)
      = later_pairs (co_occurrence_rel now repo_name file_path) ts" for ts
    by (rule filter_later_pairs_all) (simp add: co_occurrence_rel_def)
  show ?thesis by (simp add: extract_relationships_from_extraction_def a b c)
qed

text \<open>
  Claim C8. Both key term functions return at most 20 terms without repetition, and the
  relationships generated from the key terms of one file hold at most 190 of type
  \<open>co_occurrence\<close>, in the basic and in the full generator.
\<close>

theorem key_terms_capped_pairs_bounded:
  "length (extract_key_terms h matches) \<le> 20
   \<and> distinct (extract_key_terms h matches)
   \<and> length (extract_key_terms_basic h pattern_matches) \<le> 20
   \<and> distinct (extract_key_terms_basic h pattern_matches)
   \<and> length (filter (\<lambda>r. rel_type r = ''co_occurrence'')
        (extract_relationships_basic now repo_name file_path
           (extract_key_terms_basic h pattern_matches))) \<le> 190
   \<and> length (filter (\<lambda>r. rel_type r = ''co_occurrence'')
        (extract_relationships_from_extraction now repo_name file_path content_type content
           (info\<lparr>info_key_terms := extract_key_terms h matches\<rparr>))) \<le> 190"
proof -
  have 1: "length (extract_key_terms h matches) \<le> 20"
    by (simp add: extract_key_terms_def)
  have 2: "distinct (extract_key_terms h matches)"
    by (simp add: extract_key_terms_def list_of_set_distinct)
  have 3: "length (extract_key_terms_basic h pattern_matches) \<le> 20"
    by (simp add: extract_key_terms_basic_def)
  have 4: "distinct (extract_key_terms_basic h pattern_matches)"
    by (simp add: extract_key_terms_basic_def list_of_set_distinct)
  have 5: "length (filter (\<lambda>r. rel_type r = ''co_occurrence'')
        (extract_relationships_basic now repo_name file_path
           (extract_key_terms_basic h pattern_matches))) \<le> 190"
    unfolding co_occurrence_of_basic using 3 by (rule later_pairs_at_most_190)
  have 6: "length (filter (\<lambda>r. rel_type r = ''co_occurrence'')
        (extract_relationships_from_extraction now repo_name file_path content_type content
           (info\<lparr>info_key_terms := extract_key_terms h matches\<rparr>))) \<le> 190"
    unfolding co_occurrence_of_full using 1 by (simp add: later_pairs_at_most_190)
  from 1 2 3 4 5 6 show ?thesis by blast
qed

theorem key_terms_capped_pairs_bounded_witness:
  "length (extract_key_terms length [''API'', ''Protocol'', ''API'', ''tool-api'']) \<le> 20
   \<and> distinct (extract_key_terms length [''API'', ''Protocol'', ''API'', ''tool-api''])
   \<and> extract_key_terms length [''API'', ''Protocol'', ''API'', ''tool-api'']
       = [''API'', ''Protocol'', ''tool-api'']
   \<and> length (filter (\<lambda>r. rel_type r = ''co_occurrence'')
        (extract_relationships_basic ''t'' ''repo'' ''a.md''
           (extract_key_terms_basic length [[''UtcpClient''], [''API''], [''tool-api''], [''API'', ''api'']])))
       \<le> 190"
proof -
  have a: "extract_key_terms length [''API'', ''Protocol'', ''API'', ''tool-api'']
       = [''API'', ''Protocol'', ''tool-api'']"
    by code_simp
  show ?thesis
    using key_terms_capped_pairs_bounded [of length "[''API'', ''Protocol'', ''API'', ''tool-api'']"
        "[[''UtcpClient''], [''API''], [''tool-api''], [''API'', ''api'']]" "''t''" "''repo''" "''a.md''"]
      a by simp
qed

end
